theory Spec2Isabelle
  imports Main "HOL-Library.Word"
begin

section \<open>NuPlayer: the controller of a streaming media player\<close>

text \<open>
  A shallow embedding of \<^verbatim>\<open>media/libmediaplayerservice/nuplayer/NuPlayer.cpp\<close>.
  The controller is a record of its member fields. Every handler is a function from the
  controller to either an abort (a failed \<^verbatim>\<open>CHECK\<close>, \<^verbatim>\<open>TRESPASS\<close>, or a call through
  a null strong pointer) or the updated controller together with the list of calls it
  made on its collaborators, in program order.
\<close>

subsection \<open>Data\<close>

type_synonym handle = nat

type_synonym int32 = "32 word"

text \<open>The enum \<^verbatim>\<open>FlushStatus\<close>, in the order the handlers use it.\<close>

datatype FlushStatus =
    NONE
  | AWAITING_DISCONTINUITY
  | FLUSHING_DECODER
  | FLUSHING_DECODER_SHUTDOWN
  | SHUTTING_DOWN_DECODER
  | FLUSHED
  | SHUT_DOWN

text \<open>
  The values of \<^verbatim>\<open>status_t\<close> the controller tells apart. \<open>EWOULDBLOCK\<close> stands for
  \<^verbatim>\<open>-EWOULDBLOCK\<close>; the numeric values live in headers outside this file and only
  their being distinct matters here.
\<close>

datatype status_t =
    OK
  | EWOULDBLOCK
  | INFO_DISCONTINUITY
  | ERROR_END_OF_STREAM
  | OTHER_ERROR int

text \<open>
  The \<^verbatim>\<open>"discontinuity"\<close> entry of an access unit's meta data, compared with
  \<^verbatim>\<open>ATSParser::DISCONTINUITY_FORMATCHANGE\<close>.
\<close>

datatype discontinuity_type =
    DISCONTINUITY_FORMATCHANGE
  | DISCONTINUITY_OTHER int

text \<open>An access unit: its buffer and the \<^verbatim>\<open>"discontinuity"\<close> entry of its meta data, if any.\<close>

datatype access_unit = AccessUnit handle "discontinuity_type option"

text \<open>The event codes passed to the listener.\<close>

datatype media_event = MEDIA_PLAYBACK_COMPLETE | MEDIA_RESET_COMPLETE

text \<open>
  A decoder is constructed from its notify message (audio or video) and a surface
  (\<^verbatim>\<open>NULL\<close> for audio); a renderer from the audio sink.
\<close>

datatype Decoder = Decoder bool "handle option"

datatype Renderer = Renderer "handle option"

text \<open>
  The \<^verbatim>\<open>codec-request\<close> carried by a decoder's notification, by its \<^verbatim>\<open>what\<close>:
  the reply of \<^verbatim>\<open>kWhatFillThisBuffer\<close>; channel count and sample rate of
  \<^verbatim>\<open>kWhatOutputFormatChanged\<close>; buffer and reply of \<^verbatim>\<open>kWhatDrainThisBuffer\<close>.
\<close>

datatype codec_request =
    ACodec_kWhatFillThisBuffer handle
  | ACodec_kWhatEOS
  | ACodec_kWhatFlushCompleted
  | ACodec_kWhatOutputFormatChanged int32 int32
  | ACodec_kWhatShutdownCompleted
  | ACodec_kWhatDrainThisBuffer handle handle
  | ACodec_kWhatOther

text \<open>The renderer's notification: its \<^verbatim>\<open>what\<close> and the \<^verbatim>\<open>"audio"\<close> integer.\<close>

datatype renderer_notify =
    Renderer_kWhatEOS int32
  | Renderer_kWhatFlushComplete int32
  | Renderer_kWhatOther

datatype message =
    kWhatSetDataSource handle
  | kWhatSetVideoSurface "handle option"
  | kWhatSetAudioSink "handle option"
  | kWhatStart
  | kWhatScanSources int32
  | kWhatVideoNotify codec_request
  | kWhatAudioNotify codec_request
  | kWhatRendererNotify renderer_notify
  | kWhatMoreDataQueued
  | kWhatReset
  | kWhatOther

datatype reply_payload =
    ReplyErr status_t
  | ReplyBuffer "access_unit option"

text \<open>
  The calls a handler makes on its collaborators. A \<open>bool\<close> argument is the source's
  \<^verbatim>\<open>audio\<close> flag (\<open>True\<close> for the audio track). \<open>Post m d\<close> posts message \<open>m\<close> to the
  controller itself with a delay of \<open>d\<close> microseconds.
\<close>

datatype effect =
    Source_start
  | Source_getFormat bool
  | Source_feedMoreTSData
  | Source_dequeueAccessUnit bool
  | Looper_registerHandler_Renderer
  | Looper_registerHandler_Decoder bool
  | Decoder_configure bool handle
  | Decoder_signalFlush bool
  | Decoder_signalResume bool
  | Decoder_initiateShutdown bool
  | Renderer_queueEOS bool status_t
  | Renderer_queueBuffer bool handle handle
  | Renderer_flush bool
  | Renderer_signalTimeDiscontinuity
  | Renderer_signalAudioSinkChanged
  | AudioSink_close
  | AudioSink_open int32 int32
  | AudioSink_start
  | Listener_sendEvent media_event int int
  | Post message int
  | Reply_post handle reply_payload

text \<open>Why a handler aborts the process.\<close>

datatype error =
    CHECK_failed
  | TRESPASS
  | NullSource
  | NullRenderer
  | NullDecoder
  | NullAudioSink
  | NullAccessUnit

text \<open>
  What the collaborators answer during one handler run. Every handler asks each of
  these at most once per track, so one answer each describes the run:
  \<^verbatim>\<open>mSource->getFormat(audio)\<close>, \<^verbatim>\<open>mSource->feedMoreTSData()\<close>,
  \<^verbatim>\<open>mSource->dequeueAccessUnit(audio, &accessUnit)\<close>, \<^verbatim>\<open>mAudioSink->open(..)\<close> and
  whether \<^verbatim>\<open>mListener.promote()\<close> yields a live listener.
\<close>

record env =
  env_getFormat :: "bool \<Rightarrow> handle option"
  env_feedMoreTSData :: bool
  env_dequeueAccessUnit :: "bool \<Rightarrow> status_t \<times> access_unit option"
  env_open :: status_t
  env_promote :: bool

text \<open>The member fields of \<^verbatim>\<open>NuPlayer\<close>.\<close>

record NuPlayer =
  mListener :: "handle option"
  mSource :: "handle option"
  mSurface :: "handle option"
  mAudioSink :: "handle option"
  mVideoDecoder :: "Decoder option"
  mAudioDecoder :: "Decoder option"
  mRenderer :: "Renderer option"
  mAudioEOS :: bool
  mVideoEOS :: bool
  mScanSourcesPending :: bool
  mScanSourcesGeneration :: int32
  mFlushingAudio :: FlushStatus
  mFlushingVideo :: FlushStatus
  mResetInProgress :: bool
  mResetPostponed :: bool

type_synonym outcome = "error + NuPlayer \<times> effect list"

subsection \<open>Construction and the direct setter\<close>

definition NuPlayer_new :: NuPlayer where
  "NuPlayer_new =
     \<lparr> mListener = None, mSource = None, mSurface = None, mAudioSink = None,
       mVideoDecoder = None, mAudioDecoder = None, mRenderer = None,
       mAudioEOS = False, mVideoEOS = False,
       mScanSourcesPending = False, mScanSourcesGeneration = 0,
       mFlushingAudio = NONE, mFlushingVideo = NONE,
       mResetInProgress = False, mResetPostponed = False \<rparr>"

definition setListener :: "handle option \<Rightarrow> NuPlayer \<Rightarrow> NuPlayer" where
  "setListener listener s = s\<lparr>mListener := listener\<rparr>"

subsection \<open>Helpers\<close>

text \<open>Run \<open>f\<close> after a first part that did not abort; the calls are concatenated.\<close>

definition andThen :: "outcome \<Rightarrow> (NuPlayer \<Rightarrow> outcome) \<Rightarrow> outcome" where
  "andThen r f =
     (case r of
        Inl e \<Rightarrow> Inl e
      | Inr (s, es) \<Rightarrow>
          (case f s of Inl e \<Rightarrow> Inl e | Inr (s', es') \<Rightarrow> Inr (s', es @ es')))"

text \<open>
  \<^verbatim>\<open>IsFlushingState(state, &needShutdown)\<close>: the result, and the value written to
  \<^verbatim>\<open>*needShutdown\<close> (nothing is written in the default case).
\<close>

fun IsFlushingState :: "FlushStatus \<Rightarrow> bool \<times> bool option" where
  "IsFlushingState FLUSHING_DECODER = (True, Some False)"
| "IsFlushingState FLUSHING_DECODER_SHUTDOWN = (True, Some True)"
| "IsFlushingState _ = (False, None)"

definition notifyListener :: "env \<Rightarrow> media_event \<Rightarrow> int \<Rightarrow> int \<Rightarrow> NuPlayer \<Rightarrow> effect list" where
  "notifyListener env msg ext1 ext2 s =
     (if mListener s = None then []
      else if \<not> env_promote env then []
      else [Listener_sendEvent msg ext1 ext2])"

definition finishReset :: "env \<Rightarrow> NuPlayer \<Rightarrow> outcome" where
  "finishReset env s =
     (if mAudioDecoder s \<noteq> None then Inl CHECK_failed
      else if mVideoDecoder s \<noteq> None then Inl CHECK_failed
      else Inr (s\<lparr>mRenderer := None, mSource := None\<rparr>,
                notifyListener env MEDIA_RESET_COMPLETE 0 0 s))"

definition postScanSources :: "NuPlayer \<Rightarrow> NuPlayer \<times> effect list" where
  "postScanSources s =
     (if mScanSourcesPending s then (s, [])
      else (s\<lparr>mScanSourcesPending := True\<rparr>,
            [Post (kWhatScanSources (mScanSourcesGeneration s)) 0]))"

text \<open>
  \<^verbatim>\<open>instantiateDecoder(audio, &decoder)\<close>. Both call sites pass the member of the same
  track as \<^verbatim>\<open>decoder\<close>, so the flag selects the field.
\<close>

definition decoderOf :: "bool \<Rightarrow> NuPlayer \<Rightarrow> Decoder option" where
  "decoderOf audio s = (if audio then mAudioDecoder s else mVideoDecoder s)"

definition instantiateDecoder :: "env \<Rightarrow> bool \<Rightarrow> NuPlayer \<Rightarrow> error + status_t \<times> NuPlayer \<times> effect list" where
  "instantiateDecoder env audio s =
     (if decoderOf audio s \<noteq> None then Inr (OK, s, [])
      else if mSource s = None then Inl NullSource
      else
        (case env_getFormat env audio of
           None \<Rightarrow> Inr (EWOULDBLOCK, s, [Source_getFormat audio])
         | Some meta \<Rightarrow>
             (let d = Decoder audio (if audio then None else mSurface s);
                  s' = (if audio then s\<lparr>mAudioDecoder := Some d\<rparr>
                        else s\<lparr>mVideoDecoder := Some d\<rparr>)
              in Inr (OK, s',
                      [Source_getFormat audio, Looper_registerHandler_Decoder audio,
                       Decoder_configure audio meta]))))"

definition flushDecoder :: "bool \<Rightarrow> bool \<Rightarrow> NuPlayer \<Rightarrow> outcome" where
  "flushDecoder audio needShutdown s =
     (let s1 = s\<lparr>mScanSourcesGeneration := mScanSourcesGeneration s + 1\<rparr> in
      if decoderOf audio s1 = None then Inl NullDecoder
      else if mRenderer s1 = None then Inl NullRenderer
      else
        (let es = [Decoder_signalFlush audio, Renderer_flush audio];
             newStatus = (if needShutdown then FLUSHING_DECODER_SHUTDOWN else FLUSHING_DECODER)
         in
           if audio then
             (if \<not> (mFlushingAudio s1 = NONE \<or> mFlushingAudio s1 = AWAITING_DISCONTINUITY)
              then Inl CHECK_failed
              else
                (let s2 = s1\<lparr>mFlushingAudio := newStatus\<rparr> in
                 if mFlushingVideo s2 = NONE
                 then Inr (s2\<lparr>mFlushingVideo :=
                             (if mVideoDecoder s2 \<noteq> None then AWAITING_DISCONTINUITY else FLUSHED)\<rparr>, es)
                 else Inr (s2, es)))
           else
             (if \<not> (mFlushingVideo s1 = NONE \<or> mFlushingVideo s1 = AWAITING_DISCONTINUITY)
              then Inl CHECK_failed
              else
                (let s2 = s1\<lparr>mFlushingVideo := newStatus\<rparr> in
                 if mFlushingAudio s2 = NONE
                 then Inr (s2\<lparr>mFlushingAudio :=
                             (if mAudioDecoder s2 \<noteq> None then AWAITING_DISCONTINUITY else FLUSHED)\<rparr>, es)
                 else Inr (s2, es)))))"

text \<open>\<^verbatim>\<open>feedDecoderInputData(audio, msg)\<close>, with \<open>reply\<close> the message's \<^verbatim>\<open>"reply"\<close>.\<close>

definition feedDecoderInputData :: "env \<Rightarrow> bool \<Rightarrow> handle \<Rightarrow> NuPlayer \<Rightarrow> error + status_t \<times> NuPlayer \<times> effect list" where
  "feedDecoderInputData env audio reply s =
     (if (audio \<and> fst (IsFlushingState (mFlushingAudio s)))
          \<or> (\<not> audio \<and> fst (IsFlushingState (mFlushingVideo s)))
      then Inr (OK, s, [Reply_post reply (ReplyErr INFO_DISCONTINUITY)])
      else if mSource s = None then Inl NullSource
      else
        (let (err, accessUnit) = env_dequeueAccessUnit env audio in
         if err = EWOULDBLOCK then Inr (err, s, [Source_dequeueAccessUnit audio])
         else if err \<noteq> OK then
           (if err = INFO_DISCONTINUITY then
              (case accessUnit of
                 None \<Rightarrow> Inl NullAccessUnit
               | Some (AccessUnit buf None) \<Rightarrow> Inl CHECK_failed
               | Some (AccessUnit buf (Some type)) \<Rightarrow>
                   (let formatChange = (type = DISCONTINUITY_FORMATCHANGE) in
                    case flushDecoder audio formatChange s of
                      Inl e \<Rightarrow> Inl e
                    | Inr (s', es) \<Rightarrow>
                        Inr (OK, s',
                             Source_dequeueAccessUnit audio # es @ [Reply_post reply (ReplyErr err)])))
            else Inr (OK, s, [Source_dequeueAccessUnit audio, Reply_post reply (ReplyErr err)]))
         else Inr (OK, s, [Source_dequeueAccessUnit audio, Reply_post reply (ReplyBuffer accessUnit)])))"

definition renderBuffer :: "bool \<Rightarrow> handle \<Rightarrow> handle \<Rightarrow> NuPlayer \<Rightarrow> outcome" where
  "renderBuffer audio buffer reply s =
     (if mRenderer s = None then Inl NullRenderer
      else Inr (s, [Renderer_queueBuffer audio buffer reply]))"

definition finishFlushIfPossible :: "env \<Rightarrow> NuPlayer \<Rightarrow> outcome" where
  "finishFlushIfPossible env s =
     (if mFlushingAudio s \<noteq> FLUSHED \<and> mFlushingAudio s \<noteq> SHUT_DOWN then Inr (s, [])
      else if mFlushingVideo s \<noteq> FLUSHED \<and> mFlushingVideo s \<noteq> SHUT_DOWN then Inr (s, [])
      else if mRenderer s = None then Inl NullRenderer
      else
        (let ea = (if mFlushingAudio s = SHUT_DOWN then []
                   else if mAudioDecoder s \<noteq> None then [Decoder_signalResume True] else []);
             ev = (if mFlushingVideo s = SHUT_DOWN then []
                   else if mVideoDecoder s \<noteq> None then [Decoder_signalResume False] else []);
             scanSourcesAgain = (mFlushingAudio s = SHUT_DOWN \<or> mFlushingVideo s = SHUT_DOWN);
             es = Renderer_signalTimeDiscontinuity # ea @ ev;
             s1 = s\<lparr>mFlushingAudio := NONE, mFlushingVideo := NONE\<rparr>
         in
           if mResetInProgress s1 then
             andThen (Inr (s1\<lparr>mResetInProgress := False\<rparr>, es)) (finishReset env)
           else if mResetPostponed s1 then
             Inr (s1\<lparr>mResetPostponed := False\<rparr>, es @ [Post kWhatReset 0])
           else if scanSourcesAgain then
             (let (s2, ep) = postScanSources s1 in Inr (s2, es @ ep))
           else Inr (s1, es)))"

subsection \<open>The message handler\<close>

text \<open>The branch of \<^verbatim>\<open>kWhatVideoNotify\<close> and \<^verbatim>\<open>kWhatAudioNotify\<close>; \<open>msg\<close> is re-posted as it is.\<close>

definition onDecoderNotify :: "env \<Rightarrow> message \<Rightarrow> bool \<Rightarrow> codec_request \<Rightarrow> NuPlayer \<Rightarrow> outcome" where
  "onDecoderNotify env msg audio codecRequest s =
     (case codecRequest of
        ACodec_kWhatFillThisBuffer reply \<Rightarrow>
          (case feedDecoderInputData env audio reply s of
             Inl e \<Rightarrow> Inl e
           | Inr (err, s', es) \<Rightarrow>
               if err = EWOULDBLOCK then
                 (if mSource s' = None then Inl NullSource
                  else if env_feedMoreTSData env
                  then Inr (s', es @ [Source_feedMoreTSData, Post msg 0])
                  else Inr (s', es @ [Source_feedMoreTSData]))
               else Inr (s', es))
      | ACodec_kWhatEOS \<Rightarrow>
          (if mRenderer s = None then Inl NullRenderer
           else Inr (s, [Renderer_queueEOS audio ERROR_END_OF_STREAM]))
      | ACodec_kWhatFlushCompleted \<Rightarrow>
          (case IsFlushingState (if audio then mFlushingAudio s else mFlushingVideo s) of
             (True, Some needShutdown) \<Rightarrow>
               (let s1 = (if audio then s\<lparr>mFlushingAudio := FLUSHED\<rparr>
                          else s\<lparr>mFlushingVideo := FLUSHED\<rparr>)
                in
                  if needShutdown then
                    (if decoderOf audio s1 = None then Inl NullDecoder
                     else
                       andThen
                         (Inr (if audio then s1\<lparr>mFlushingAudio := SHUTTING_DOWN_DECODER\<rparr>
                               else s1\<lparr>mFlushingVideo := SHUTTING_DOWN_DECODER\<rparr>,
                               [Decoder_initiateShutdown audio]))
                         (finishFlushIfPossible env))
                  else finishFlushIfPossible env s1)
           | _ \<Rightarrow> Inl CHECK_failed)
      | ACodec_kWhatOutputFormatChanged numChannels sampleRate \<Rightarrow>
          (if \<not> audio then Inl CHECK_failed
           else if mAudioSink s = None then Inl NullAudioSink
           else if env_open env \<noteq> OK then Inl CHECK_failed
           else if mRenderer s = None then Inl NullRenderer
           else Inr (s, [AudioSink_close, AudioSink_open sampleRate numChannels, AudioSink_start,
                         Renderer_signalAudioSinkChanged]))
      | ACodec_kWhatShutdownCompleted \<Rightarrow>
          (if audio then
             (let s1 = s\<lparr>mAudioDecoder := None\<rparr> in
              if mFlushingAudio s1 \<noteq> SHUTTING_DOWN_DECODER then Inl CHECK_failed
              else finishFlushIfPossible env (s1\<lparr>mFlushingAudio := SHUT_DOWN\<rparr>))
           else
             (let s1 = s\<lparr>mVideoDecoder := None\<rparr> in
              if mFlushingVideo s1 \<noteq> SHUTTING_DOWN_DECODER then Inl CHECK_failed
              else finishFlushIfPossible env (s1\<lparr>mFlushingVideo := SHUT_DOWN\<rparr>)))
      | ACodec_kWhatDrainThisBuffer buffer reply \<Rightarrow> renderBuffer audio buffer reply s
      | ACodec_kWhatOther \<Rightarrow> Inl CHECK_failed)"

text \<open>The branch of \<^verbatim>\<open>kWhatScanSources\<close>, once the generation has been found current.\<close>

definition scanSources :: "env \<Rightarrow> message \<Rightarrow> NuPlayer \<Rightarrow> outcome" where
  "scanSources env msg s =
     (let s1 = s\<lparr>mScanSourcesPending := False\<rparr> in
      case instantiateDecoder env False s1 of
        Inl e \<Rightarrow> Inl e
      | Inr (_, s2, e2) \<Rightarrow>
          (case (if mAudioSink s2 \<noteq> None then instantiateDecoder env True s2 else Inr (OK, s2, [])) of
             Inl e \<Rightarrow> Inl e
           | Inr (_, s3, e3) \<Rightarrow>
               if mSource s3 = None then Inl NullSource
               else if \<not> env_feedMoreTSData env then
                 (if mAudioDecoder s3 = None \<and> mVideoDecoder s3 = None
                  then Inr (s3, e2 @ e3 @ Source_feedMoreTSData
                                 # notifyListener env MEDIA_PLAYBACK_COMPLETE 0 0 s3)
                  else Inr (s3, e2 @ e3 @ [Source_feedMoreTSData]))
               else if mAudioDecoder s3 = None \<or> mVideoDecoder s3 = None
               then Inr (s3\<lparr>mScanSourcesPending := True\<rparr>,
                         e2 @ e3 @ [Source_feedMoreTSData, Post msg 100000])
               else Inr (s3, e2 @ e3 @ [Source_feedMoreTSData])))"

definition onMessageReceived :: "env \<Rightarrow> message \<Rightarrow> NuPlayer \<Rightarrow> outcome" where
  "onMessageReceived env msg s =
     (case msg of
        kWhatSetDataSource obj \<Rightarrow>
          (if mSource s \<noteq> None then Inl CHECK_failed
           else Inr (s\<lparr>mSource := Some obj\<rparr>, []))
      | kWhatSetVideoSurface obj \<Rightarrow> Inr (s\<lparr>mSurface := obj\<rparr>, [])
      | kWhatSetAudioSink obj \<Rightarrow> Inr (s\<lparr>mAudioSink := obj\<rparr>, [])
      | kWhatStart \<Rightarrow>
          (let s1 = s\<lparr>mAudioEOS := False, mVideoEOS := False\<rparr> in
           if mSource s1 = None then Inl NullSource
           else
             (let s2 = s1\<lparr>mRenderer := Some (Renderer (mAudioSink s1))\<rparr>;
                  (s3, ep) = postScanSources s2
              in Inr (s3, [Source_start, Looper_registerHandler_Renderer] @ ep)))
      | kWhatScanSources generation \<Rightarrow>
          (if generation \<noteq> mScanSourcesGeneration s then Inr (s, [])
           else scanSources env msg s)
      | kWhatVideoNotify codecRequest \<Rightarrow> onDecoderNotify env msg False codecRequest s
      | kWhatAudioNotify codecRequest \<Rightarrow> onDecoderNotify env msg True codecRequest s
      | kWhatRendererNotify n \<Rightarrow>
          (case n of
             Renderer_kWhatEOS audio \<Rightarrow>
               (let s1 = (if audio \<noteq> 0 then s\<lparr>mAudioEOS := True\<rparr> else s\<lparr>mVideoEOS := True\<rparr>) in
                if (mAudioEOS s1 \<or> mAudioDecoder s1 = None)
                     \<and> (mVideoEOS s1 \<or> mVideoDecoder s1 = None)
                then Inr (s1, notifyListener env MEDIA_PLAYBACK_COMPLETE 0 0 s1)
                else Inr (s1, []))
           | Renderer_kWhatFlushComplete audio \<Rightarrow> Inr (s, [])
           | Renderer_kWhatOther \<Rightarrow> Inl CHECK_failed)
      | kWhatMoreDataQueued \<Rightarrow> Inr (s, [])
      | kWhatReset \<Rightarrow>
          (if mFlushingAudio s \<noteq> NONE \<or> mFlushingVideo s \<noteq> NONE
           then Inr (s\<lparr>mResetPostponed := True\<rparr>, [])
           else if mAudioDecoder s = None \<and> mVideoDecoder s = None then finishReset env s
           else
             andThen
               (andThen (if mAudioDecoder s \<noteq> None then flushDecoder True True s else Inr (s, []))
                  (\<lambda>s1. if mVideoDecoder s1 \<noteq> None then flushDecoder False True s1 else Inr (s1, [])))
               (\<lambda>s2. Inr (s2\<lparr>mResetInProgress := True\<rparr>, []))
          )
      | kWhatOther \<Rightarrow> Inl TRESPASS)"

subsection \<open>Runs of the handler\<close>

text \<open>
  Dispatching a sequence of messages, each with the answers the collaborators give while
  it is handled. The run stops at the first abort.
\<close>

fun run :: "(env \<times> message) list \<Rightarrow> NuPlayer \<Rightarrow> outcome" where
  "run [] s = Inr (s, [])"
| "run ((env, msg) # rest) s = andThen (onMessageReceived env msg s) (run rest)"

subsection \<open>Observations on the calls made\<close>

text \<open>The messages a handler posted to the controller, in order.\<close>

fun posted :: "effect list \<Rightarrow> message list" where
  "posted [] = []"
| "posted (Post m d # es) = m # posted es"
| "posted (e # es) = posted es"


text \<open>How many times \<^verbatim>\<open>MEDIA_PLAYBACK_COMPLETE\<close> was sent to the listener.\<close>

fun isPlaybackComplete :: "effect \<Rightarrow> bool" where
  "isPlaybackComplete (Listener_sendEvent MEDIA_PLAYBACK_COMPLETE ext1 ext2) = True"
| "isPlaybackComplete e = False"

definition playbackCompletes :: "effect list \<Rightarrow> nat" where
  "playbackCompletes es = length (filter isPlaybackComplete es)"







text \<open>
  Dispatching messages for as long as a flush is under way: the run stops as soon as
  both tracks are back in \<open>NONE\<close>, and at the first abort.
\<close>

fun runWhileFlushing :: "(env \<times> message) list \<Rightarrow> NuPlayer \<Rightarrow> outcome" where
  "runWhileFlushing [] s = Inr (s, [])"
| "runWhileFlushing ((env, msg) # rest) s =
     (if mFlushingAudio s = NONE \<and> mFlushingVideo s = NONE then Inr (s, [])
      else andThen (onMessageReceived env msg s) (runWhileFlushing rest))"

subsection \<open>The controller with its queue\<close>

text \<open>
  The queue holds the messages the controller has posted to itself and not yet handled.
  Handling a message takes one copy of it out of the queue (a message from the client, a
  decoder or the renderer is not in it) and appends what the handler posted.
\<close>

definition dispatch :: "env \<Rightarrow> message \<Rightarrow> NuPlayer \<times> message list \<Rightarrow> error + NuPlayer \<times> message list" where
  "dispatch env msg sq =
     (case onMessageReceived env msg (fst sq) of
        Inl e \<Rightarrow> Inl e
      | Inr (s', es) \<Rightarrow> Inr (s', remove1 msg (snd sq) @ posted es))"

fun dispatchAll :: "(env \<times> message) list \<Rightarrow> NuPlayer \<times> message list \<Rightarrow> error + NuPlayer \<times> message list" where
  "dispatchAll [] sq = Inr sq"
| "dispatchAll ((env, msg) # rest) sq =
     (case dispatch env msg sq of Inl e \<Rightarrow> Inl e | Inr sq' \<Rightarrow> dispatchAll rest sq')"

text \<open>
  The states the controller can be in: a fresh controller, after any calls of
  \<^verbatim>\<open>setListener\<close> and any messages whose handlers did not abort, whatever the
  collaborators answered.
\<close>

inductive reachable :: "NuPlayer \<Rightarrow> bool" where
  reachable_new: "reachable NuPlayer_new"
| reachable_setListener: "reachable s \<Longrightarrow> reachable (setListener listener s)"
| reachable_message:
    "reachable s \<Longrightarrow> onMessageReceived env msg s = Inr (s', es) \<Longrightarrow> reachable s'"

text \<open>Whether a track is between the start of a flush and its decoder's last acknowledgement.\<close>

definition decoderBusy :: "FlushStatus \<Rightarrow> bool" where
  "decoderBusy st =
     (st = FLUSHING_DECODER \<or> st = FLUSHING_DECODER_SHUTDOWN \<or> st = SHUTTING_DOWN_DECODER)"

definition flushed :: "FlushStatus \<Rightarrow> bool" where
  "flushed st = (st = FLUSHED \<or> st = SHUT_DOWN)"

text \<open>
  A track whose status says its decoder still owes an acknowledgement has a decoder.
\<close>

definition decoderInv :: "NuPlayer \<Rightarrow> bool" where
  "decoderInv s =
     ((decoderBusy (mFlushingAudio s) \<longrightarrow> mAudioDecoder s \<noteq> None)
      \<and> (decoderBusy (mFlushingVideo s) \<longrightarrow> mVideoDecoder s \<noteq> None))"

text \<open>
  A reset is waiting for the flush under way: a flush that no reset started, with
  \<^verbatim>\<open>mResetPostponed\<close> set. Handling a message in such a state either leaves the reset
  waiting and posts no \<^verbatim>\<open>kWhatReset\<close>, or ends the flush and posts exactly one.
\<close>

definition resetWaiting :: "NuPlayer \<Rightarrow> bool" where
  "resetWaiting s =
     ((mFlushingAudio s \<noteq> NONE \<or> mFlushingVideo s \<noteq> NONE)
      \<and> mResetPostponed s \<and> \<not> mResetInProgress s)"

definition resetStep :: "NuPlayer \<Rightarrow> effect list \<Rightarrow> bool" where
  "resetStep s' es =
     ((resetWaiting s' \<and> count_list (posted es) kWhatReset = 0)
      \<or> (mFlushingAudio s' = NONE \<and> mFlushingVideo s' = NONE \<and> \<not> mResetPostponed s'
           \<and> count_list (posted es) kWhatReset = 1))"

text \<open>Two states with the same EOS flags.\<close>

definition sameEOS :: "NuPlayer \<Rightarrow> NuPlayer \<Rightarrow> bool" where
  "sameEOS s s' = (mAudioEOS s' = mAudioEOS s \<and> mVideoEOS s' = mVideoEOS s)"

text \<open>The track whose decoder sent a notification (\<open>True\<close> for audio).\<close>

fun notifier :: "message \<Rightarrow> bool option" where
  "notifier (kWhatAudioNotify codecRequest) = Some True"
| "notifier (kWhatVideoNotify codecRequest) = Some False"
| "notifier msg = None"

subsection \<open>Concrete scenarios\<close>

text \<open>
  Collaborators that have nothing to offer: no format yet, would-block on dequeue, more
  data may come, the sink opens, the listener is alive.
\<close>

definition env0 :: env where
  "env0 = \<lparr> env_getFormat = (\<lambda>audio. None), env_feedMoreTSData = True,
            env_dequeueAccessUnit = (\<lambda>audio. (EWOULDBLOCK, None)), env_open = OK,
            env_promote = True \<rparr>"

definition withFormat :: "handle option \<Rightarrow> handle option \<Rightarrow> env" where
  "withFormat video audio = env0\<lparr>env_getFormat := (\<lambda>a. if a then audio else video)\<rparr>"

definition withUnit :: "status_t \<Rightarrow> access_unit \<Rightarrow> env" where
  "withUnit err unit = env0\<lparr>env_dequeueAccessUnit := (\<lambda>a. (err, Some unit))\<rparr>"

definition player0 :: NuPlayer where
  "player0 = setListener (Some 3) NuPlayer_new"

text \<open>
  Both tracks play; the video track meets a time discontinuity, which puts the audio
  track in \<open>AWAITING_DISCONTINUITY\<close>.
\<close>

definition trace_video_discontinuity :: "(env \<times> message) list" where
  "trace_video_discontinuity =
     [(env0, kWhatSetDataSource 1),
      (env0, kWhatSetAudioSink (Some 2)),
      (env0, kWhatStart),
      (withFormat (Some 10) (Some 11), kWhatScanSources 0),
      (withUnit INFO_DISCONTINUITY (AccessUnit 5 (Some (DISCONTINUITY_OTHER 0))),
         kWhatVideoNotify (ACodec_kWhatFillThisBuffer 20))]"

definition state_audio_awaiting :: NuPlayer where
  "state_audio_awaiting =
     \<lparr> mListener = Some 3, mSource = Some 1, mSurface = None, mAudioSink = Some 2,
       mVideoDecoder = Some (Decoder False None), mAudioDecoder = Some (Decoder True None),
       mRenderer = Some (Renderer (Some 2)), mAudioEOS = False, mVideoEOS = False,
       mScanSourcesPending = False, mScanSourcesGeneration = 1,
       mFlushingAudio = AWAITING_DISCONTINUITY, mFlushingVideo = FLUSHING_DECODER,
       mResetInProgress = False, mResetPostponed = False \<rparr>"


text \<open>
  An audio-only stream; a reset starts the flush of the audio decoder, and a second
  reset arrives before the decoder has acknowledged.
\<close>

definition trace_reset_twice :: "(env \<times> message) list" where
  "trace_reset_twice =
     [(env0, kWhatSetDataSource 1),
      (env0, kWhatSetAudioSink (Some 2)),
      (env0, kWhatStart),
      (withFormat None (Some 11), kWhatScanSources 0),
      (env0, kWhatReset),
      (env0, kWhatReset),
      (env0, kWhatAudioNotify ACodec_kWhatFlushCompleted)]"

definition state_reset_twice :: NuPlayer where
  "state_reset_twice =
     \<lparr> mListener = Some 3, mSource = Some 1, mSurface = None, mAudioSink = Some 2,
       mVideoDecoder = None, mAudioDecoder = None,
       mRenderer = Some (Renderer (Some 2)), mAudioEOS = False, mVideoEOS = False,
       mScanSourcesPending = True, mScanSourcesGeneration = 1,
       mFlushingAudio = SHUT_DOWN, mFlushingVideo = FLUSHED,
       mResetInProgress = True, mResetPostponed = True \<rparr>"

text \<open>
  An audio-only stream whose scan is still looking for a video track when the audio
  track changes format.
\<close>

definition trace_format_change :: "(env \<times> message) list" where
  "trace_format_change =
     [(env0, kWhatSetDataSource 1),
      (env0, kWhatSetAudioSink (Some 2)),
      (env0, kWhatStart),
      (withFormat None (Some 11), kWhatScanSources 0),
      (withUnit INFO_DISCONTINUITY (AccessUnit 5 (Some DISCONTINUITY_FORMATCHANGE)),
         kWhatAudioNotify (ACodec_kWhatFillThisBuffer 20))]"

text \<open>
  An audio-only stream whose source has no more data for now, so that no scan is pending.
  The audio track changes format, and while its decoder shuts down the client calls
  \<^verbatim>\<open>start\<close> again, which posts a scan of the current generation. The state below is the
  one in which \<^verbatim>\<open>finishFlushIfPossible\<close> then runs, with the decoder cleared.
\<close>

definition trace_start_during_flush :: "(env \<times> message) list" where
  "trace_start_during_flush =
     [(env0, kWhatSetDataSource 1),
      (env0, kWhatSetAudioSink (Some 2)),
      (env0, kWhatStart),
      ((withFormat None (Some 11))\<lparr>env_feedMoreTSData := False\<rparr>, kWhatScanSources 0),
      (withUnit INFO_DISCONTINUITY (AccessUnit 5 (Some DISCONTINUITY_FORMATCHANGE)),
         kWhatAudioNotify (ACodec_kWhatFillThisBuffer 20)),
      (env0, kWhatAudioNotify ACodec_kWhatFlushCompleted),
      (env0, kWhatStart)]"

definition state_format_change_shut_down :: NuPlayer where
  "state_format_change_shut_down =
     \<lparr> mListener = Some 3, mSource = Some 1, mSurface = None, mAudioSink = Some 2,
       mVideoDecoder = None, mAudioDecoder = None,
       mRenderer = Some (Renderer (Some 2)), mAudioEOS = False, mVideoEOS = False,
       mScanSourcesPending = True, mScanSourcesGeneration = 1,
       mFlushingAudio = SHUT_DOWN, mFlushingVideo = FLUSHED,
       mResetInProgress = False, mResetPostponed = False \<rparr>"



text \<open>
  A reset arrives during the flush of a video discontinuity; the audio track then meets
  its own discontinuity and both decoders acknowledge their flush. A further reset
  follows.
\<close>

definition trace_reset_in_flush :: "(env \<times> message) list" where
  "trace_reset_in_flush =
     [(env0, kWhatReset),
      (withUnit INFO_DISCONTINUITY (AccessUnit 6 (Some (DISCONTINUITY_OTHER 0))),
         kWhatAudioNotify (ACodec_kWhatFillThisBuffer 21)),
      (env0, kWhatVideoNotify ACodec_kWhatFlushCompleted),
      (env0, kWhatAudioNotify ACodec_kWhatFlushCompleted),
      (env0, kWhatReset)]"



definition state_no_tracks :: NuPlayer where
  "state_no_tracks =
     \<lparr> mListener = Some 3, mSource = Some 1, mSurface = None, mAudioSink = None,
       mVideoDecoder = None, mAudioDecoder = None,
       mRenderer = Some (Renderer None), mAudioEOS = False, mVideoEOS = False,
       mScanSourcesPending = False, mScanSourcesGeneration = 0,
       mFlushingAudio = NONE, mFlushingVideo = NONE,
       mResetInProgress = False, mResetPostponed = False \<rparr>"

section \<open>Properties\<close>

lemmas handler_defs =
  onMessageReceived_def onDecoderNotify_def scanSources_def feedDecoderInputData_def
  flushDecoder_def finishFlushIfPossible_def finishReset_def postScanSources_def
  instantiateDecoder_def renderBuffer_def notifyListener_def decoderOf_def andThen_def
  setListener_def NuPlayer_new_def dispatch_def

lemmas scenario_defs = env0_def withFormat_def withUnit_def player0_def

subsection \<open>The scenarios, evaluated\<close>

lemma run_reachable:
  "reachable s \<Longrightarrow> run tr s = Inr (s', es) \<Longrightarrow> reachable s'"
proof (induction tr arbitrary: s es)
  case Nil
  then show ?case by simp
next
  case (Cons em tr)
  obtain env msg where em: "em = (env, msg)" by (cases em)
  from Cons.prems(2) em obtain s1 e1 e2 where
    a: "onMessageReceived env msg s = Inr (s1, e1)" and b: "run tr s1 = Inr (s', e2)"
    by (auto simp: andThen_def split: sum.splits prod.splits)
  from Cons.prems(1) a have "reachable s1" by (rule reachable_message)
  then show ?case using b by (rule Cons.IH)
qed

lemma player0_reachable: "reachable player0"
  unfolding player0_def by (intro reachable_setListener reachable_new)

lemma run_video_discontinuity:
  "run trace_video_discontinuity player0 =
     Inr (state_audio_awaiting,
          [Source_start, Looper_registerHandler_Renderer, Post (kWhatScanSources 0) 0,
           Source_getFormat False, Looper_registerHandler_Decoder False,
           Decoder_configure False 10, Source_getFormat True,
           Looper_registerHandler_Decoder True, Decoder_configure True 11,
           Source_feedMoreTSData, Source_dequeueAccessUnit False, Decoder_signalFlush False,
           Renderer_flush False, Reply_post 20 (ReplyErr INFO_DISCONTINUITY)])"
  by (simp add: trace_video_discontinuity_def state_audio_awaiting_def handler_defs
        scenario_defs Let_def)


lemma run_reset_twice:
  "map_sum id fst (run trace_reset_twice player0) =
     Inr (state_reset_twice\<lparr>mAudioDecoder := Some (Decoder True None),
                            mFlushingAudio := SHUTTING_DOWN_DECODER\<rparr>)"
  by (simp add: trace_reset_twice_def state_reset_twice_def handler_defs scenario_defs Let_def)

lemma state_audio_awaiting_reachable: "reachable state_audio_awaiting"
  using player0_reachable run_video_discontinuity by (rule run_reachable)

subsection \<open>Feeding a decoder\<close>

text \<open>
  C1, as stated, fails: \<^verbatim>\<open>IsFlushingState\<close> is true of \<open>FLUSHING_DECODER\<close> and
  \<open>FLUSHING_DECODER_SHUTDOWN\<close> only. After the video track met a discontinuity the audio
  track is in \<open>AWAITING_DISCONTINUITY\<close>, which is not \<open>NONE\<close>, and a
  \<^verbatim>\<open>kWhatFillThisBuffer\<close> of the audio decoder still dequeues an access unit from the
  source and replies with its buffer.
\<close>

theorem feed_while_awaiting_delivers_buffer:
  "map_sum id fst (run trace_video_discontinuity player0) = Inr state_audio_awaiting
   \<and> mFlushingAudio state_audio_awaiting \<noteq> NONE
   \<and> feedDecoderInputData (withUnit OK (AccessUnit 7 None)) True 21 state_audio_awaiting
       = Inr (OK, state_audio_awaiting,
              [Source_dequeueAccessUnit True,
               Reply_post 21 (ReplyBuffer (Some (AccessUnit 7 None)))])"
  by (simp add: run_video_discontinuity)
     (simp add: state_audio_awaiting_def feedDecoderInputData_def withUnit_def)

text \<open>
  C1, amended: for a track whose status is \<open>FLUSHING_DECODER\<close> or
  \<open>FLUSHING_DECODER_SHUTDOWN\<close>, \<^verbatim>\<open>feedDecoderInputData\<close> leaves the controller as it
  is, makes a single call, the reply carrying \<^verbatim>\<open>INFO_DISCONTINUITY\<close>, and returns
  \<^verbatim>\<open>OK\<close>: no buffer is delivered and the source is not asked for an access unit. The
  handler of \<^verbatim>\<open>kWhatFillThisBuffer\<close> then does nothing more.
\<close>

theorem feed_while_decoder_flushing:
  assumes "(if audio then mFlushingAudio s else mFlushingVideo s) = FLUSHING_DECODER
         \<or> (if audio then mFlushingAudio s else mFlushingVideo s) = FLUSHING_DECODER_SHUTDOWN"
  shows "feedDecoderInputData env audio reply s
           = Inr (OK, s, [Reply_post reply (ReplyErr INFO_DISCONTINUITY)])
       \<and> onMessageReceived env
            (if audio then kWhatAudioNotify (ACodec_kWhatFillThisBuffer reply)
             else kWhatVideoNotify (ACodec_kWhatFillThisBuffer reply)) s
           = Inr (s, [Reply_post reply (ReplyErr INFO_DISCONTINUITY)])"
  using assms
  by (auto simp: feedDecoderInputData_def onMessageReceived_def onDecoderNotify_def
        split: if_splits)

theorem feed_while_decoder_flushing_witness:
  "mFlushingVideo state_audio_awaiting = FLUSHING_DECODER
   \<and> feedDecoderInputData (withUnit OK (AccessUnit 7 None)) False 22 state_audio_awaiting
       = Inr (OK, state_audio_awaiting, [Reply_post 22 (ReplyErr INFO_DISCONTINUITY)])
   \<and> onMessageReceived (withUnit OK (AccessUnit 7 None))
        (kWhatVideoNotify (ACodec_kWhatFillThisBuffer 22)) state_audio_awaiting
       = Inr (state_audio_awaiting, [Reply_post 22 (ReplyErr INFO_DISCONTINUITY)])"
proof -
  have h: "mFlushingVideo state_audio_awaiting = FLUSHING_DECODER"
    by (simp add: state_audio_awaiting_def)
  from h feed_while_decoder_flushing
         [of False state_audio_awaiting "withUnit OK (AccessUnit 7 None)" 22]
  show ?thesis by simp
qed

subsection \<open>Scan generations\<close>

lemma flushDecoder_generation:
  "flushDecoder audio needShutdown s = Inr (s', es) \<Longrightarrow>
     mScanSourcesGeneration s' = mScanSourcesGeneration s + 1"
  by (auto simp: flushDecoder_def decoderOf_def Let_def split: if_splits)

lemma stale_scan_dropped:
  "generation \<noteq> mScanSourcesGeneration s \<Longrightarrow>
     onMessageReceived env (kWhatScanSources generation) s = Inr (s, [])"
  by (simp add: onMessageReceived_def)

text \<open>
  C2: a call of \<^verbatim>\<open>flushDecoder\<close> that returns has incremented
  \<^verbatim>\<open>mScanSourcesGeneration\<close> (a 32-bit counter, so the new value differs from the old
  one), and a \<^verbatim>\<open>kWhatScanSources\<close> whose generation is not the current one leaves the
  controller unchanged and makes no call at all. In particular a scan posted before the
  flush is dropped after it.
\<close>

theorem flush_invalidates_pending_scans:
  "(flushDecoder audio needShutdown s = Inr (s', es) \<longrightarrow>
      mScanSourcesGeneration s' = mScanSourcesGeneration s + 1
      \<and> onMessageReceived env (kWhatScanSources (mScanSourcesGeneration s)) s' = Inr (s', []))
   \<and> (generation \<noteq> mScanSourcesGeneration s \<longrightarrow>
        onMessageReceived env (kWhatScanSources generation) s = Inr (s, []))"
proof (intro conjI impI)
  assume f: "flushDecoder audio needShutdown s = Inr (s', es)"
  show g: "mScanSourcesGeneration s' = mScanSourcesGeneration s + 1"
    by (rule flushDecoder_generation [OF f])
  have "mScanSourcesGeneration s \<noteq> mScanSourcesGeneration s'"
    by (simp add: g)
  then show "onMessageReceived env (kWhatScanSources (mScanSourcesGeneration s)) s' = Inr (s', [])"
    by (rule stale_scan_dropped)
next
  assume "generation \<noteq> mScanSourcesGeneration s"
  then show "onMessageReceived env (kWhatScanSources generation) s = Inr (s, [])"
    by (rule stale_scan_dropped)
qed

theorem flush_invalidates_pending_scans_witness:
  "flushDecoder True False state_audio_awaiting
     = Inr (state_audio_awaiting\<lparr>mScanSourcesGeneration := 2,
                                 mFlushingAudio := FLUSHING_DECODER\<rparr>,
            [Decoder_signalFlush True, Renderer_flush True])
   \<and> mScanSourcesGeneration state_audio_awaiting = 1
   \<and> onMessageReceived env0 (kWhatScanSources 1)
        (state_audio_awaiting\<lparr>mScanSourcesGeneration := 2,
                               mFlushingAudio := FLUSHING_DECODER\<rparr>)
       = Inr (state_audio_awaiting\<lparr>mScanSourcesGeneration := 2,
                                   mFlushingAudio := FLUSHING_DECODER\<rparr>, [])
   \<and> onMessageReceived env0 (kWhatScanSources 0) state_audio_awaiting
       = Inr (state_audio_awaiting, [])"
proof -
  have f: "flushDecoder True False state_audio_awaiting
             = Inr (state_audio_awaiting\<lparr>mScanSourcesGeneration := 2,
                                         mFlushingAudio := FLUSHING_DECODER\<rparr>,
                    [Decoder_signalFlush True, Renderer_flush True])"
    by (simp add: flushDecoder_def decoderOf_def state_audio_awaiting_def)
  have g: "mScanSourcesGeneration state_audio_awaiting = 1"
    by (simp add: state_audio_awaiting_def)
  have n: "(0::int32) \<noteq> mScanSourcesGeneration state_audio_awaiting"
    by (simp add: g)
  from f g n flush_invalidates_pending_scans
               [of True False state_audio_awaiting
                   "state_audio_awaiting\<lparr>mScanSourcesGeneration := 2,
                                          mFlushingAudio := FLUSHING_DECODER\<rparr>"
                   "[Decoder_signalFlush True, Renderer_flush True]" env0 0]
  show ?thesis by simp
qed

subsection \<open>Starting a flush\<close>




subsection \<open>Scanning the source\<close>

lemma instantiateDecoder_cases:
  "mSource s \<noteq> None \<Longrightarrow>
   instantiateDecoder env audio s =
     (if decoderOf audio s \<noteq> None then Inr (OK, s, [])
      else case env_getFormat env audio of
             None \<Rightarrow> Inr (EWOULDBLOCK, s, [Source_getFormat audio])
           | Some meta \<Rightarrow>
               Inr (OK,
                    if audio then s\<lparr>mAudioDecoder := Some (Decoder True None)\<rparr>
                    else s\<lparr>mVideoDecoder := Some (Decoder False (mSurface s))\<rparr>,
                    [Source_getFormat audio, Looper_registerHandler_Decoder audio,
                     Decoder_configure audio meta]))"
  by (cases "mSource s") (simp_all add: instantiateDecoder_def Let_def split: option.splits)

lemma playbackCompletes_simps [simp]:
  "playbackCompletes [] = 0"
  "playbackCompletes (e # es) = (if isPlaybackComplete e then 1 else 0) + playbackCompletes es"
  "playbackCompletes (es @ es') = playbackCompletes es + playbackCompletes es'"
  by (simp_all add: playbackCompletes_def)

text \<open>
  C7: a \<^verbatim>\<open>kWhatScanSources\<close> of the current generation, with a source set, is handled
  without abort, and with \<open>s'\<close> the controller afterwards (its decoders are those present
  once the scan has tried to instantiate them):
  if \<^verbatim>\<open>feedMoreTSData\<close> answers false and both decoders are absent,
  \<^verbatim>\<open>MEDIA_PLAYBACK_COMPLETE\<close> goes to the listener (once, and exactly when a listener is
  set and alive), nothing is posted and \<^verbatim>\<open>mScanSourcesPending\<close> stays false;
  if it answers true and a decoder is absent, the same message is posted again with a
  delay of 100000 microseconds, and \<^verbatim>\<open>mScanSourcesPending\<close> is set;
  if both decoders exist, nothing is posted.
\<close>

theorem scanSources_outcomes:
  assumes "generation = mScanSourcesGeneration s" and "mSource s \<noteq> None"
  shows "\<exists>s' es. onMessageReceived env (kWhatScanSources generation) s = Inr (s', es)
      \<and> (\<not> env_feedMoreTSData env \<and> mAudioDecoder s' = None \<and> mVideoDecoder s' = None \<longrightarrow>
           playbackCompletes es = (if mListener s \<noteq> None \<and> env_promote env then 1 else 0)
           \<and> (Listener_sendEvent MEDIA_PLAYBACK_COMPLETE 0 0 \<in> set es
                \<longleftrightarrow> mListener s \<noteq> None \<and> env_promote env)
           \<and> posted es = [] \<and> \<not> mScanSourcesPending s')
      \<and> (env_feedMoreTSData env \<and> (mAudioDecoder s' = None \<or> mVideoDecoder s' = None) \<longrightarrow>
           Post (kWhatScanSources generation) 100000 \<in> set es
           \<and> posted es = [kWhatScanSources generation] \<and> mScanSourcesPending s')
      \<and> (mAudioDecoder s' \<noteq> None \<and> mVideoDecoder s' \<noteq> None \<longrightarrow>
           posted es = [] \<and> \<not> mScanSourcesPending s')"
proof (cases "mVideoDecoder s")
  case vNone: None
  show ?thesis
  proof (cases "env_getFormat env False")
    case fNone: None
    show ?thesis
      using assms vNone fNone
      by (cases "mAudioSink s"; cases "mAudioDecoder s"; cases "env_getFormat env True";
          cases "env_feedMoreTSData env")
         (simp_all add: onMessageReceived_def scanSources_def instantiateDecoder_cases
            decoderOf_def notifyListener_def)
  next
    case fSome: (Some meta)
    show ?thesis
      using assms vNone fSome
      by (cases "mAudioSink s"; cases "mAudioDecoder s"; cases "env_getFormat env True";
          cases "env_feedMoreTSData env")
         (simp_all add: onMessageReceived_def scanSources_def instantiateDecoder_cases
            decoderOf_def notifyListener_def)
  qed
next
  case vSome: (Some d)
  show ?thesis
    using assms vSome
    by (cases "mAudioSink s"; cases "mAudioDecoder s"; cases "env_getFormat env True";
        cases "env_feedMoreTSData env")
       (simp_all add: onMessageReceived_def scanSources_def instantiateDecoder_cases
          decoderOf_def notifyListener_def)
qed

text \<open>
  The three cases at work. With no track and no more data the listener is told; with the
  audio track not yet found the scan is posted again; with a scan that finds both tracks
  nothing is posted.
\<close>

theorem scanSources_outcomes_witness:
  "(\<exists>s' es. onMessageReceived (env0\<lparr>env_feedMoreTSData := False\<rparr>) (kWhatScanSources 0)
              (state_no_tracks\<lparr>mScanSourcesPending := True\<rparr>) = Inr (s', es)
       \<and> Listener_sendEvent MEDIA_PLAYBACK_COMPLETE 0 0 \<in> set es
       \<and> posted es = [] \<and> \<not> mScanSourcesPending s')
   \<and> (\<exists>s' es. onMessageReceived (withFormat (Some 10) None) (kWhatScanSources 0)
                state_no_tracks = Inr (s', es)
       \<and> mAudioDecoder s' = None
       \<and> Post (kWhatScanSources 0) 100000 \<in> set es \<and> mScanSourcesPending s')
   \<and> (\<exists>s' es. onMessageReceived (withFormat (Some 10) (Some 11)) (kWhatScanSources 0)
                (state_no_tracks\<lparr>mAudioSink := Some 2\<rparr>) = Inr (s', es)
       \<and> mAudioDecoder s' \<noteq> None \<and> mVideoDecoder s' \<noteq> None
       \<and> posted es = [] \<and> \<not> mScanSourcesPending s')"
proof -
  have g: "(0::int32) = mScanSourcesGeneration (state_no_tracks\<lparr>mScanSourcesPending := True\<rparr>)"
          "(0::int32) = mScanSourcesGeneration state_no_tracks"
          "(0::int32) = mScanSourcesGeneration (state_no_tracks\<lparr>mAudioSink := Some 2\<rparr>)"
    by (simp_all add: state_no_tracks_def)
  have src: "mSource (state_no_tracks\<lparr>mScanSourcesPending := True\<rparr>) \<noteq> None"
            "mSource state_no_tracks \<noteq> None"
            "mSource (state_no_tracks\<lparr>mAudioSink := Some 2\<rparr>) \<noteq> None"
    by (simp_all add: state_no_tracks_def)
  have a: "onMessageReceived (env0\<lparr>env_feedMoreTSData := False\<rparr>) (kWhatScanSources 0)
             (state_no_tracks\<lparr>mScanSourcesPending := True\<rparr>)
           = Inr (state_no_tracks,
                  [Source_getFormat False, Source_feedMoreTSData,
                   Listener_sendEvent MEDIA_PLAYBACK_COMPLETE 0 0])"
    by (simp add: state_no_tracks_def handler_defs scenario_defs)
  have b: "onMessageReceived (withFormat (Some 10) None) (kWhatScanSources 0) state_no_tracks
           = Inr (state_no_tracks\<lparr>mVideoDecoder := Some (Decoder False None),
                                   mScanSourcesPending := True\<rparr>,
                  [Source_getFormat False, Looper_registerHandler_Decoder False,
                   Decoder_configure False 10, Source_feedMoreTSData,
                   Post (kWhatScanSources 0) 100000])"
    by (simp add: state_no_tracks_def handler_defs scenario_defs Let_def)
  have c: "onMessageReceived (withFormat (Some 10) (Some 11)) (kWhatScanSources 0)
             (state_no_tracks\<lparr>mAudioSink := Some 2\<rparr>)
           = Inr (state_no_tracks\<lparr>mAudioSink := Some 2,
                                   mVideoDecoder := Some (Decoder False None),
                                   mAudioDecoder := Some (Decoder True None)\<rparr>,
                  [Source_getFormat False, Looper_registerHandler_Decoder False,
                   Decoder_configure False 10, Source_getFormat True,
                   Looper_registerHandler_Decoder True, Decoder_configure True 11,
                   Source_feedMoreTSData])"
    by (simp add: state_no_tracks_def handler_defs scenario_defs Let_def)
  have la: "mListener (state_no_tracks\<lparr>mScanSourcesPending := True\<rparr>) \<noteq> None
            \<and> env_promote (env0\<lparr>env_feedMoreTSData := False\<rparr>)
            \<and> \<not> env_feedMoreTSData (env0\<lparr>env_feedMoreTSData := False\<rparr>)"
    by (simp add: state_no_tracks_def env0_def)
  have lb: "env_feedMoreTSData (withFormat (Some 10) None)"
    by (simp add: scenario_defs)
  from scanSources_outcomes [OF g(1) src(1), of "env0\<lparr>env_feedMoreTSData := False\<rparr>"] a la
  have 1: "\<exists>s' es. onMessageReceived (env0\<lparr>env_feedMoreTSData := False\<rparr>) (kWhatScanSources 0)
              (state_no_tracks\<lparr>mScanSourcesPending := True\<rparr>) = Inr (s', es)
       \<and> Listener_sendEvent MEDIA_PLAYBACK_COMPLETE 0 0 \<in> set es
       \<and> posted es = [] \<and> \<not> mScanSourcesPending s'"
    by (simp add: state_no_tracks_def)
  from scanSources_outcomes [OF g(2) src(2), of "withFormat (Some 10) None"] b lb
  have 2: "\<exists>s' es. onMessageReceived (withFormat (Some 10) None) (kWhatScanSources 0)
                state_no_tracks = Inr (s', es)
       \<and> mAudioDecoder s' = None
       \<and> Post (kWhatScanSources 0) 100000 \<in> set es \<and> mScanSourcesPending s'"
    by (simp add: state_no_tracks_def)
  from scanSources_outcomes [OF g(3) src(3), of "withFormat (Some 10) (Some 11)"] c
  have 3: "\<exists>s' es. onMessageReceived (withFormat (Some 10) (Some 11)) (kWhatScanSources 0)
                (state_no_tracks\<lparr>mAudioSink := Some 2\<rparr>) = Inr (s', es)
       \<and> mAudioDecoder s' \<noteq> None \<and> mVideoDecoder s' \<noteq> None
       \<and> posted es = [] \<and> \<not> mScanSourcesPending s'"
    by simp
  from 1 2 3 show ?thesis by blast
qed

subsection \<open>End of stream from the renderer\<close>

text \<open>
  C8: the handler of the renderer's \<^verbatim>\<open>kWhatEOS\<close> sets \<^verbatim>\<open>mAudioEOS\<close> if the message's
  \<^verbatim>\<open>"audio"\<close> is non-zero and \<^verbatim>\<open>mVideoEOS\<close> otherwise, and changes nothing else. It
  calls \<^verbatim>\<open>notifyListener(MEDIA_PLAYBACK_COMPLETE, 0, 0)\<close>, and nothing else, exactly when
  after the update each track is at its end or has no decoder; so, a listener being set
  and alive, the event is sent if and only if that condition holds.
\<close>

theorem renderer_eos_completion:
  "let s' = (if audio \<noteq> 0 then s\<lparr>mAudioEOS := True\<rparr> else s\<lparr>mVideoEOS := True\<rparr>);
       complete = ((mAudioEOS s' \<or> mAudioDecoder s' = None)
                    \<and> (mVideoEOS s' \<or> mVideoDecoder s' = None))
   in \<exists>es. onMessageReceived env (kWhatRendererNotify (Renderer_kWhatEOS audio)) s = Inr (s', es)
        \<and> es = (if complete then notifyListener env MEDIA_PLAYBACK_COMPLETE 0 0 s else [])
        \<and> (mListener s \<noteq> None \<and> env_promote env \<longrightarrow>
             (Listener_sendEvent MEDIA_PLAYBACK_COMPLETE 0 0 \<in> set es \<longleftrightarrow> complete))"
  by (auto simp: onMessageReceived_def notifyListener_def Let_def)

text \<open>
  With both decoders present and the video track already at its end, the audio track's
  end completes playback; the video track's end alone, with the audio decoder present and
  not at its end, does not.
\<close>

theorem renderer_eos_completion_witness:
  "onMessageReceived env0 (kWhatRendererNotify (Renderer_kWhatEOS 1))
     (state_audio_awaiting\<lparr>mVideoEOS := True\<rparr>)
     = Inr (state_audio_awaiting\<lparr>mVideoEOS := True, mAudioEOS := True\<rparr>,
            [Listener_sendEvent MEDIA_PLAYBACK_COMPLETE 0 0])
   \<and> onMessageReceived env0 (kWhatRendererNotify (Renderer_kWhatEOS 0)) state_audio_awaiting
     = Inr (state_audio_awaiting\<lparr>mVideoEOS := True\<rparr>, [])"
proof -
  have l: "mListener state_audio_awaiting \<noteq> None \<and> env_promote env0"
    by (simp add: state_audio_awaiting_def env0_def)
  from l renderer_eos_completion [of 1 "state_audio_awaiting\<lparr>mVideoEOS := True\<rparr>" env0]
  have 1: "onMessageReceived env0 (kWhatRendererNotify (Renderer_kWhatEOS 1))
             (state_audio_awaiting\<lparr>mVideoEOS := True\<rparr>)
           = Inr (state_audio_awaiting\<lparr>mVideoEOS := True, mAudioEOS := True\<rparr>,
                  [Listener_sendEvent MEDIA_PLAYBACK_COMPLETE 0 0])"
    by (simp add: Let_def notifyListener_def state_audio_awaiting_def)
  from l renderer_eos_completion [of 0 state_audio_awaiting env0]
  have 2: "onMessageReceived env0 (kWhatRendererNotify (Renderer_kWhatEOS 0)) state_audio_awaiting
           = Inr (state_audio_awaiting\<lparr>mVideoEOS := True\<rparr>, [])"
    by (simp add: Let_def state_audio_awaiting_def)
  from 1 2 show ?thesis by simp
qed

subsection \<open>Finishing a flush\<close>

text \<open>
  C5, as stated, fails in its third branch: \<^verbatim>\<open>postScanSources\<close> posts nothing while
  \<^verbatim>\<open>mScanSourcesPending\<close> is set. An audio-only stream changes format at a moment when
  no scan is pending, and while the decoder shuts down a \<^verbatim>\<open>kWhatStart\<close> posts a scan of
  the current generation, 1, which is still in the queue when the shutdown completes.
  Then neither reset flag is set and the audio track is \<open>SHUT_DOWN\<close>, yet
  \<^verbatim>\<open>finishFlushIfPossible\<close> only signals the time discontinuity and posts no second
  \<^verbatim>\<open>kWhatScanSources\<close>.
\<close>

theorem scan_not_reposted_while_pending:
  "dispatchAll trace_start_during_flush (player0, [])
     = Inr (state_format_change_shut_down\<lparr>mAudioDecoder := Some (Decoder True None),
                                          mFlushingAudio := SHUTTING_DOWN_DECODER\<rparr>,
            [kWhatScanSources 1])
   \<and> mScanSourcesGeneration state_format_change_shut_down = 1
   \<and> onMessageReceived env0 (kWhatAudioNotify ACodec_kWhatShutdownCompleted)
        (state_format_change_shut_down\<lparr>mAudioDecoder := Some (Decoder True None),
                                        mFlushingAudio := SHUTTING_DOWN_DECODER\<rparr>)
       = finishFlushIfPossible env0 state_format_change_shut_down
   \<and> mFlushingAudio state_format_change_shut_down = SHUT_DOWN
   \<and> mFlushingVideo state_format_change_shut_down = FLUSHED
   \<and> \<not> mResetInProgress state_format_change_shut_down
   \<and> \<not> mResetPostponed state_format_change_shut_down
   \<and> finishFlushIfPossible env0 state_format_change_shut_down
       = Inr (state_format_change_shut_down\<lparr>mFlushingAudio := NONE, mFlushingVideo := NONE\<rparr>,
              [Renderer_signalTimeDiscontinuity])"
  by (simp add: trace_start_during_flush_def state_format_change_shut_down_def handler_defs
        scenario_defs Let_def)

text \<open>
  C5, amended. \<^verbatim>\<open>finishFlushIfPossible\<close> changes nothing and calls nothing unless both
  tracks are \<open>FLUSHED\<close> or \<open>SHUT_DOWN\<close>. When both are (and there is a renderer, which it
  calls through), it signals the renderer's time discontinuity, resumes each decoder that
  is present and whose track is not \<open>SHUT_DOWN\<close>, audio first, sets both statuses to
  \<open>NONE\<close>, and then does exactly one of, in this order of priority:
  clear \<^verbatim>\<open>mResetInProgress\<close> and run \<^verbatim>\<open>finishReset\<close>, if it was set;
  clear \<^verbatim>\<open>mResetPostponed\<close> and post \<^verbatim>\<open>kWhatReset\<close>, if it was set;
  if a track was \<open>SHUT_DOWN\<close>, post \<^verbatim>\<open>kWhatScanSources\<close> of the current generation and
  set \<^verbatim>\<open>mScanSourcesPending\<close>, unless \<^verbatim>\<open>mScanSourcesPending\<close> was set already, in
  which case nothing is posted;
  nothing more, if no track was \<open>SHUT_DOWN\<close>.
\<close>

theorem finishFlushIfPossible_cases:
  "(\<not> (flushed (mFlushingAudio s) \<and> flushed (mFlushingVideo s)) \<longrightarrow>
      finishFlushIfPossible env s = Inr (s, []))
   \<and> (flushed (mFlushingAudio s) \<and> flushed (mFlushingVideo s) \<and> mRenderer s \<noteq> None \<longrightarrow>
       (let es = Renderer_signalTimeDiscontinuity
                  # (if mFlushingAudio s \<noteq> SHUT_DOWN \<and> mAudioDecoder s \<noteq> None
                     then [Decoder_signalResume True] else [])
                  @ (if mFlushingVideo s \<noteq> SHUT_DOWN \<and> mVideoDecoder s \<noteq> None
                     then [Decoder_signalResume False] else []);
            s1 = s\<lparr>mFlushingAudio := NONE, mFlushingVideo := NONE\<rparr>
        in (mResetInProgress s \<longrightarrow>
              finishFlushIfPossible env s
                = andThen (Inr (s1\<lparr>mResetInProgress := False\<rparr>, es)) (finishReset env))
         \<and> (\<not> mResetInProgress s \<and> mResetPostponed s \<longrightarrow>
              finishFlushIfPossible env s
                = Inr (s1\<lparr>mResetPostponed := False\<rparr>, es @ [Post kWhatReset 0]))
         \<and> (\<not> mResetInProgress s \<and> \<not> mResetPostponed s
              \<and> (mFlushingAudio s = SHUT_DOWN \<or> mFlushingVideo s = SHUT_DOWN)
              \<and> \<not> mScanSourcesPending s \<longrightarrow>
              finishFlushIfPossible env s
                = Inr (s1\<lparr>mScanSourcesPending := True\<rparr>,
                       es @ [Post (kWhatScanSources (mScanSourcesGeneration s)) 0]))
         \<and> (\<not> mResetInProgress s \<and> \<not> mResetPostponed s
              \<and> (mFlushingAudio s = SHUT_DOWN \<or> mFlushingVideo s = SHUT_DOWN)
              \<and> mScanSourcesPending s \<longrightarrow>
              finishFlushIfPossible env s = Inr (s1, es))
         \<and> (\<not> mResetInProgress s \<and> \<not> mResetPostponed s
              \<and> mFlushingAudio s \<noteq> SHUT_DOWN \<and> mFlushingVideo s \<noteq> SHUT_DOWN \<longrightarrow>
              finishFlushIfPossible env s = Inr (s1, es))))"
  by (simp add: finishFlushIfPossible_def flushed_def postScanSources_def Let_def)

text \<open>
  The branches at work: a flush still under way; the end of a reset; a postponed reset;
  a decoder shut down with no scan pending; a decoder shut down with a scan pending; a
  plain flush of both decoders.
\<close>

theorem finishFlushIfPossible_cases_witness:
  "finishFlushIfPossible env0 state_audio_awaiting = Inr (state_audio_awaiting, [])
   \<and> finishFlushIfPossible env0 state_reset_twice
       = Inr (state_reset_twice\<lparr>mFlushingAudio := NONE, mFlushingVideo := NONE,
                                 mResetInProgress := False, mRenderer := None, mSource := None\<rparr>,
              [Renderer_signalTimeDiscontinuity, Listener_sendEvent MEDIA_RESET_COMPLETE 0 0])
   \<and> finishFlushIfPossible env0 (state_reset_twice\<lparr>mResetInProgress := False\<rparr>)
       = Inr (state_reset_twice\<lparr>mResetInProgress := False, mFlushingAudio := NONE,
                                 mFlushingVideo := NONE, mResetPostponed := False\<rparr>,
              [Renderer_signalTimeDiscontinuity, Post kWhatReset 0])
   \<and> finishFlushIfPossible env0 (state_format_change_shut_down\<lparr>mScanSourcesPending := False\<rparr>)
       = Inr (state_format_change_shut_down\<lparr>mFlushingAudio := NONE, mFlushingVideo := NONE,
                                             mScanSourcesPending := True\<rparr>,
              [Renderer_signalTimeDiscontinuity, Post (kWhatScanSources 1) 0])
   \<and> finishFlushIfPossible env0 state_format_change_shut_down
       = Inr (state_format_change_shut_down\<lparr>mFlushingAudio := NONE, mFlushingVideo := NONE\<rparr>,
              [Renderer_signalTimeDiscontinuity])
   \<and> finishFlushIfPossible env0
        (state_audio_awaiting\<lparr>mFlushingAudio := FLUSHED, mFlushingVideo := FLUSHED\<rparr>)
       = Inr (state_audio_awaiting\<lparr>mFlushingAudio := NONE, mFlushingVideo := NONE\<rparr>,
              [Renderer_signalTimeDiscontinuity, Decoder_signalResume True,
               Decoder_signalResume False])"
proof -
  have 1: "finishFlushIfPossible env0 state_audio_awaiting = Inr (state_audio_awaiting, [])"
    using finishFlushIfPossible_cases [of state_audio_awaiting env0]
    by (simp add: state_audio_awaiting_def flushed_def)
  have 2: "finishFlushIfPossible env0 state_reset_twice
       = Inr (state_reset_twice\<lparr>mFlushingAudio := NONE, mFlushingVideo := NONE,
                                 mResetInProgress := False, mRenderer := None, mSource := None\<rparr>,
              [Renderer_signalTimeDiscontinuity, Listener_sendEvent MEDIA_RESET_COMPLETE 0 0])"
    using finishFlushIfPossible_cases [of state_reset_twice env0]
    by (simp add: state_reset_twice_def flushed_def Let_def andThen_def finishReset_def
          notifyListener_def env0_def)
  have 3: "finishFlushIfPossible env0 (state_reset_twice\<lparr>mResetInProgress := False\<rparr>)
       = Inr (state_reset_twice\<lparr>mResetInProgress := False, mFlushingAudio := NONE,
                                 mFlushingVideo := NONE, mResetPostponed := False\<rparr>,
              [Renderer_signalTimeDiscontinuity, Post kWhatReset 0])"
    using finishFlushIfPossible_cases [of "state_reset_twice\<lparr>mResetInProgress := False\<rparr>" env0]
    by (simp add: state_reset_twice_def flushed_def Let_def)
  have 4: "finishFlushIfPossible env0 (state_format_change_shut_down\<lparr>mScanSourcesPending := False\<rparr>)
       = Inr (state_format_change_shut_down\<lparr>mFlushingAudio := NONE, mFlushingVideo := NONE,
                                             mScanSourcesPending := True\<rparr>,
              [Renderer_signalTimeDiscontinuity, Post (kWhatScanSources 1) 0])"
    using finishFlushIfPossible_cases
            [of "state_format_change_shut_down\<lparr>mScanSourcesPending := False\<rparr>" env0]
    by (simp add: state_format_change_shut_down_def flushed_def Let_def)
  have 5: "finishFlushIfPossible env0
        (state_audio_awaiting\<lparr>mFlushingAudio := FLUSHED, mFlushingVideo := FLUSHED\<rparr>)
       = Inr (state_audio_awaiting\<lparr>mFlushingAudio := NONE, mFlushingVideo := NONE\<rparr>,
              [Renderer_signalTimeDiscontinuity, Decoder_signalResume True,
               Decoder_signalResume False])"
    using finishFlushIfPossible_cases
            [of "state_audio_awaiting\<lparr>mFlushingAudio := FLUSHED, mFlushingVideo := FLUSHED\<rparr>" env0]
    by (simp add: state_audio_awaiting_def flushed_def Let_def)
  have 6: "finishFlushIfPossible env0 state_format_change_shut_down
       = Inr (state_format_change_shut_down\<lparr>mFlushingAudio := NONE, mFlushingVideo := NONE\<rparr>,
              [Renderer_signalTimeDiscontinuity])"
    using finishFlushIfPossible_cases [of state_format_change_shut_down env0]
    by (simp add: state_format_change_shut_down_def flushed_def Let_def)
  from 1 2 3 4 5 6 show ?thesis by simp
qed

subsection \<open>A reset during a flush\<close>

text \<open>
  C3, as stated, fails when the flush under way is itself the flush of a reset. A first
  \<^verbatim>\<open>kWhatReset\<close> starts the flush and sets \<^verbatim>\<open>mResetInProgress\<close>; a second one arrives
  during the flush and sets \<^verbatim>\<open>mResetPostponed\<close>. When the decoder's shutdown completes,
  \<^verbatim>\<open>finishFlushIfPossible\<close> finds both tracks quiescent, takes the branch of
  \<^verbatim>\<open>mResetInProgress\<close> and runs \<^verbatim>\<open>finishReset\<close>: no \<^verbatim>\<open>kWhatReset\<close> is posted (the
  only messages posted in the whole run are the two scans) and \<^verbatim>\<open>mResetPostponed\<close> is
  still set.
\<close>

theorem reset_during_reset_flush_not_reposted:
  "map_sum id fst (run trace_reset_twice player0)
     = Inr (state_reset_twice\<lparr>mAudioDecoder := Some (Decoder True None),
                              mFlushingAudio := SHUTTING_DOWN_DECODER\<rparr>)
   \<and> flushed (mFlushingAudio state_reset_twice) \<and> flushed (mFlushingVideo state_reset_twice)
   \<and> mResetPostponed state_reset_twice
   \<and> finishFlushIfPossible env0 state_reset_twice
       = Inr (state_reset_twice\<lparr>mFlushingAudio := NONE, mFlushingVideo := NONE,
                                 mResetInProgress := False, mRenderer := None, mSource := None\<rparr>,
              [Renderer_signalTimeDiscontinuity, Listener_sendEvent MEDIA_RESET_COMPLETE 0 0])
   \<and> map_sum id (mResetPostponed \<circ> fst)
        (run (trace_reset_twice @ [(env0, kWhatAudioNotify ACodec_kWhatShutdownCompleted)]) player0)
       = Inr True
   \<and> map_sum id (posted \<circ> snd)
        (run (trace_reset_twice @ [(env0, kWhatAudioNotify ACodec_kWhatShutdownCompleted)]) player0)
       = Inr [kWhatScanSources 0, kWhatScanSources 0]"
  by (simp add: run_reset_twice)
     (simp add: trace_reset_twice_def state_reset_twice_def flushed_def handler_defs
        scenario_defs Let_def)

lemma posted_append: "posted (es @ es') = posted es @ posted es'"
  by (induction es rule: posted.induct) simp_all

lemma flushDecoder_waiting:
  "resetWaiting s \<Longrightarrow> flushDecoder audio needShutdown s = Inr (s', es) \<Longrightarrow>
     resetWaiting s' \<and> posted es = []"
  by (auto simp: flushDecoder_def resetWaiting_def Let_def split: if_splits)

lemma finishFlushIfPossible_waiting:
  "resetWaiting s \<Longrightarrow> finishFlushIfPossible env s = Inr (s', es) \<Longrightarrow> resetStep s' es"
  by (auto simp: finishFlushIfPossible_def resetWaiting_def resetStep_def posted_append
        Let_def split: if_splits)

lemma feedDecoderInputData_waiting:
  "resetWaiting s \<Longrightarrow> feedDecoderInputData env audio reply s = Inr (err, s', es) \<Longrightarrow>
     resetWaiting s' \<and> posted es = []"
  by (auto simp: feedDecoderInputData_def Let_def posted_append
        dest: flushDecoder_waiting
        split: if_splits sum.splits prod.splits option.splits access_unit.splits)

lemma instantiateDecoder_waiting:
  "resetWaiting s \<Longrightarrow> instantiateDecoder env audio s = Inr (err, s', es) \<Longrightarrow>
     resetWaiting s' \<and> posted es = []"
  by (auto simp: instantiateDecoder_def resetWaiting_def Let_def split: if_splits option.splits)

lemma resetStep_initiateShutdown:
  "resetStep s' (Decoder_initiateShutdown audio # es) = resetStep s' es"
  by (simp add: resetStep_def)

lemma onDecoderNotify_waiting:
  assumes "resetWaiting s" and "msg \<noteq> kWhatReset"
      and "onDecoderNotify env msg audio codecRequest s = Inr (s', es)"
  shows "resetStep s' es"
proof (cases codecRequest)
  case (ACodec_kWhatFillThisBuffer reply)
  with assms show ?thesis
    by (auto simp: onDecoderNotify_def resetStep_def posted_append
          dest: feedDecoderInputData_waiting
          split: sum.splits prod.splits if_splits)
next
  case ACodec_kWhatFlushCompleted
  have a: "resetWaiting (s\<lparr>mFlushingAudio := FLUSHED\<rparr>)"
          "resetWaiting (s\<lparr>mFlushingVideo := FLUSHED\<rparr>)"
          "resetWaiting (s\<lparr>mFlushingAudio := SHUTTING_DOWN_DECODER\<rparr>)"
          "resetWaiting (s\<lparr>mFlushingVideo := SHUTTING_DOWN_DECODER\<rparr>)"
    using assms(1) by (auto simp: resetWaiting_def)
  from assms(3) ACodec_kWhatFlushCompleted show ?thesis
    using a
    by (auto simp: onDecoderNotify_def andThen_def Let_def resetStep_initiateShutdown
          dest!: finishFlushIfPossible_waiting [rotated]
          split: sum.splits prod.splits if_splits option.splits bool.splits)
next
  case ACodec_kWhatShutdownCompleted
  have a: "resetWaiting (s\<lparr>mAudioDecoder := None, mFlushingAudio := SHUT_DOWN\<rparr>)"
          "resetWaiting (s\<lparr>mVideoDecoder := None, mFlushingVideo := SHUT_DOWN\<rparr>)"
    using assms(1) by (auto simp: resetWaiting_def)
  from assms(3) ACodec_kWhatShutdownCompleted show ?thesis
    using a
    by (auto simp: onDecoderNotify_def Let_def dest: finishFlushIfPossible_waiting
          split: if_splits)
qed (use assms in \<open>auto simp: onDecoderNotify_def renderBuffer_def resetStep_def split: if_splits\<close>)

lemma scanSources_waiting:
  assumes "resetWaiting s" and "msg \<noteq> kWhatReset" and "scanSources env msg s = Inr (s', es)"
  shows "resetWaiting s' \<and> count_list (posted es) kWhatReset = 0"
proof -
  have a: "resetWaiting (s\<lparr>mScanSourcesPending := False\<rparr>)"
    using assms(1) by (simp add: resetWaiting_def)
  have b: "\<And>t. resetWaiting t \<Longrightarrow> resetWaiting (t\<lparr>mScanSourcesPending := True\<rparr>)"
    by (simp add: resetWaiting_def)
  have c: "posted (notifyListener env MEDIA_PLAYBACK_COMPLETE 0 0 t) = []" for t
    by (simp add: notifyListener_def)
  from assms(3) assms(2) show ?thesis
    using a b c
    by (auto simp: scanSources_def Let_def posted_append
          dest!: instantiateDecoder_waiting [rotated]
          split: if_splits sum.splits prod.splits)
qed

lemma onMessageReceived_waiting:
  assumes "resetWaiting s" and "onMessageReceived env msg s = Inr (s', es)"
  shows "resetStep s' es"
proof (cases msg)
  case kWhatStart
  with assms show ?thesis
    by (auto simp: onMessageReceived_def postScanSources_def resetWaiting_def resetStep_def
          Let_def split: if_splits prod.splits)
next
  case (kWhatScanSources generation)
  with assms show ?thesis
    by (auto simp: onMessageReceived_def resetStep_def dest: scanSources_waiting split: if_splits)
next
  case (kWhatVideoNotify r)
  with assms show ?thesis
    by (auto simp: onMessageReceived_def dest: onDecoderNotify_waiting)
next
  case (kWhatAudioNotify r)
  with assms show ?thesis
    by (auto simp: onMessageReceived_def dest: onDecoderNotify_waiting)
next
  case (kWhatRendererNotify n)
  with assms show ?thesis
    by (cases n)
       (auto simp: onMessageReceived_def resetWaiting_def resetStep_def notifyListener_def
          Let_def split: if_splits)
next
  case kWhatReset
  with assms show ?thesis
    by (auto simp: onMessageReceived_def resetWaiting_def resetStep_def)
qed (use assms in \<open>auto simp: onMessageReceived_def resetWaiting_def resetStep_def split: if_splits\<close>)

lemma runWhileFlushing_done:
  "mFlushingAudio s = NONE \<Longrightarrow> mFlushingVideo s = NONE \<Longrightarrow> runWhileFlushing tr s = Inr (s, [])"
  by (cases tr) auto

lemma runWhileFlushing_waiting:
  "resetWaiting s \<Longrightarrow> runWhileFlushing tr s = Inr (s', es) \<Longrightarrow>
     (if mFlushingAudio s' = NONE \<and> mFlushingVideo s' = NONE
      then count_list (posted es) kWhatReset = 1 \<and> \<not> mResetPostponed s'
      else count_list (posted es) kWhatReset = 0 \<and> mResetPostponed s')"
proof (induction tr arbitrary: s es)
  case Nil
  then show ?case by (auto simp: resetWaiting_def)
next
  case (Cons em tr)
  obtain env msg where em: "em = (env, msg)" by (cases em)
  from Cons.prems(1) have fl: "\<not> (mFlushingAudio s = NONE \<and> mFlushingVideo s = NONE)"
    by (auto simp: resetWaiting_def)
  from Cons.prems(2) em fl obtain s1 e1 e2 where
    a: "onMessageReceived env msg s = Inr (s1, e1)" and
    b: "runWhileFlushing tr s1 = Inr (s', e2)" and
    c: "es = e1 @ e2"
    by (auto simp: andThen_def split: sum.splits prod.splits)
  from onMessageReceived_waiting [OF Cons.prems(1) a] have "resetStep s1 e1" .
  then show ?case
    unfolding resetStep_def
  proof (elim disjE conjE)
    assume w: "resetWaiting s1" and z: "count_list (posted e1) kWhatReset = 0"
    from Cons.IH [OF w b] z c show ?thesis by (simp add: posted_append)
  next
    assume n: "mFlushingAudio s1 = NONE" "mFlushingVideo s1 = NONE"
       and p: "\<not> mResetPostponed s1" and o: "count_list (posted e1) kWhatReset = 1"
    from runWhileFlushing_done [OF n, of tr] b have "s' = s1" "e2 = []" by simp_all
    with n p o c show ?thesis by simp
  qed
qed

text \<open>
  C3, amended: for a flush that no reset started. A \<^verbatim>\<open>kWhatReset\<close> handled while
  either track's status is not \<open>NONE\<close> only sets \<^verbatim>\<open>mResetPostponed\<close>: nothing else
  changes and nothing is called. When \<^verbatim>\<open>finishFlushIfPossible\<close> runs with both tracks
  quiescent, a renderer, \<^verbatim>\<open>mResetPostponed\<close> set and \<^verbatim>\<open>mResetInProgress\<close> not set, it
  posts exactly one \<^verbatim>\<open>kWhatReset\<close>, clears \<^verbatim>\<open>mResetPostponed\<close> and leaves both tracks
  in \<open>NONE\<close>. And the two are linked: if a \<^verbatim>\<open>kWhatReset\<close> is handled during a flush with
  \<^verbatim>\<open>mResetInProgress\<close> not set, then whatever messages follow, further resets among
  them, no \<^verbatim>\<open>kWhatReset\<close> is posted for as long as the flush is under way, and at the
  moment both tracks are back in \<open>NONE\<close> exactly one has been posted and
  \<^verbatim>\<open>mResetPostponed\<close> is clear again.
\<close>

theorem postponed_reset_reposted_once:
  "(mFlushingAudio s \<noteq> NONE \<or> mFlushingVideo s \<noteq> NONE \<longrightarrow>
      onMessageReceived env kWhatReset s = Inr (s\<lparr>mResetPostponed := True\<rparr>, []))
   \<and> (flushed (mFlushingAudio s) \<and> flushed (mFlushingVideo s) \<and> mRenderer s \<noteq> None
        \<and> mResetPostponed s \<and> \<not> mResetInProgress s \<longrightarrow>
       (\<exists>s' es. finishFlushIfPossible env s = Inr (s', es)
          \<and> filter (\<lambda>m. m = kWhatReset) (posted es) = [kWhatReset]
          \<and> \<not> mResetPostponed s'
          \<and> mFlushingAudio s' = NONE \<and> mFlushingVideo s' = NONE))
   \<and> ((mFlushingAudio s \<noteq> NONE \<or> mFlushingVideo s \<noteq> NONE) \<and> \<not> mResetInProgress s
        \<and> runWhileFlushing ((env, kWhatReset) # tr) s = Inr (t, ts) \<longrightarrow>
       (if mFlushingAudio t = NONE \<and> mFlushingVideo t = NONE
        then count_list (posted ts) kWhatReset = 1 \<and> \<not> mResetPostponed t
        else count_list (posted ts) kWhatReset = 0 \<and> mResetPostponed t))"
proof (intro conjI impI)
  assume "mFlushingAudio s \<noteq> NONE \<or> mFlushingVideo s \<noteq> NONE"
  then show "onMessageReceived env kWhatReset s = Inr (s\<lparr>mResetPostponed := True\<rparr>, [])"
    by (simp add: onMessageReceived_def)
next
  assume "flushed (mFlushingAudio s) \<and> flushed (mFlushingVideo s) \<and> mRenderer s \<noteq> None
            \<and> mResetPostponed s \<and> \<not> mResetInProgress s"
  then show "\<exists>s' es. finishFlushIfPossible env s = Inr (s', es)
          \<and> filter (\<lambda>m. m = kWhatReset) (posted es) = [kWhatReset]
          \<and> \<not> mResetPostponed s'
          \<and> mFlushingAudio s' = NONE \<and> mFlushingVideo s' = NONE"
    by (simp add: finishFlushIfPossible_def flushed_def Let_def)
next
  assume a: "(mFlushingAudio s \<noteq> NONE \<or> mFlushingVideo s \<noteq> NONE) \<and> \<not> mResetInProgress s
               \<and> runWhileFlushing ((env, kWhatReset) # tr) s = Inr (t, ts)"
  then have r: "onMessageReceived env kWhatReset s = Inr (s\<lparr>mResetPostponed := True\<rparr>, [])"
    by (simp add: onMessageReceived_def)
  from a have w: "resetWaiting (s\<lparr>mResetPostponed := True\<rparr>)"
    by (simp add: resetWaiting_def)
  from a r have "runWhileFlushing tr (s\<lparr>mResetPostponed := True\<rparr>) = Inr (t, ts)"
    by (auto simp: andThen_def split: sum.splits prod.splits if_splits)
  from runWhileFlushing_waiting [OF w this]
  show "if mFlushingAudio t = NONE \<and> mFlushingVideo t = NONE
        then count_list (posted ts) kWhatReset = 1 \<and> \<not> mResetPostponed t
        else count_list (posted ts) kWhatReset = 0 \<and> mResetPostponed t" .
qed

theorem postponed_reset_reposted_once_witness:
  "onMessageReceived env0 kWhatReset state_audio_awaiting
     = Inr (state_audio_awaiting\<lparr>mResetPostponed := True\<rparr>, [])
   \<and> (\<exists>s' es. finishFlushIfPossible env0
                (state_audio_awaiting\<lparr>mResetPostponed := True, mFlushingAudio := FLUSHED,
                                       mFlushingVideo := FLUSHED\<rparr>) = Inr (s', es)
        \<and> filter (\<lambda>m. m = kWhatReset) (posted es) = [kWhatReset]
        \<and> \<not> mResetPostponed s'
        \<and> mFlushingAudio s' = NONE \<and> mFlushingVideo s' = NONE)
   \<and> runWhileFlushing trace_reset_in_flush state_audio_awaiting
       = Inr (state_audio_awaiting\<lparr>mScanSourcesGeneration := 2, mFlushingAudio := NONE,
                                   mFlushingVideo := NONE\<rparr>,
              [Source_dequeueAccessUnit True, Decoder_signalFlush True, Renderer_flush True,
               Reply_post 21 (ReplyErr INFO_DISCONTINUITY), Renderer_signalTimeDiscontinuity,
               Decoder_signalResume True, Decoder_signalResume False, Post kWhatReset 0])
   \<and> count_list
        (posted
           [Source_dequeueAccessUnit True, Decoder_signalFlush True, Renderer_flush True,
            Reply_post 21 (ReplyErr INFO_DISCONTINUITY), Renderer_signalTimeDiscontinuity,
            Decoder_signalResume True, Decoder_signalResume False, Post kWhatReset 0])
        kWhatReset = 1
   \<and> runWhileFlushing (take 3 trace_reset_in_flush) state_audio_awaiting
       = Inr (state_audio_awaiting\<lparr>mScanSourcesGeneration := 2,
                                   mFlushingAudio := FLUSHING_DECODER,
                                   mFlushingVideo := FLUSHED, mResetPostponed := True\<rparr>,
              [Source_dequeueAccessUnit True, Decoder_signalFlush True, Renderer_flush True,
               Reply_post 21 (ReplyErr INFO_DISCONTINUITY)])
   \<and> count_list
        (posted
           [Source_dequeueAccessUnit True, Decoder_signalFlush True, Renderer_flush True,
            Reply_post 21 (ReplyErr INFO_DISCONTINUITY)])
        kWhatReset = 0"
proof -
  have f: "(mFlushingAudio state_audio_awaiting \<noteq> NONE
             \<or> mFlushingVideo state_audio_awaiting \<noteq> NONE)
           \<and> \<not> mResetInProgress state_audio_awaiting"
    by (simp add: state_audio_awaiting_def)
  have r1: "runWhileFlushing trace_reset_in_flush state_audio_awaiting
       = Inr (state_audio_awaiting\<lparr>mScanSourcesGeneration := 2, mFlushingAudio := NONE,
                                   mFlushingVideo := NONE\<rparr>,
              [Source_dequeueAccessUnit True, Decoder_signalFlush True, Renderer_flush True,
               Reply_post 21 (ReplyErr INFO_DISCONTINUITY), Renderer_signalTimeDiscontinuity,
               Decoder_signalResume True, Decoder_signalResume False, Post kWhatReset 0])"
    by (simp add: trace_reset_in_flush_def state_audio_awaiting_def handler_defs
          scenario_defs Let_def)
  have r2: "runWhileFlushing (take 3 trace_reset_in_flush) state_audio_awaiting
       = Inr (state_audio_awaiting\<lparr>mScanSourcesGeneration := 2,
                                   mFlushingAudio := FLUSHING_DECODER,
                                   mFlushingVideo := FLUSHED, mResetPostponed := True\<rparr>,
              [Source_dequeueAccessUnit True, Decoder_signalFlush True, Renderer_flush True,
               Reply_post 21 (ReplyErr INFO_DISCONTINUITY)])"
    by (simp add: trace_reset_in_flush_def state_audio_awaiting_def handler_defs
          scenario_defs Let_def)
  have 3: "count_list
        (posted
           [Source_dequeueAccessUnit True, Decoder_signalFlush True, Renderer_flush True,
            Reply_post 21 (ReplyErr INFO_DISCONTINUITY), Renderer_signalTimeDiscontinuity,
            Decoder_signalResume True, Decoder_signalResume False, Post kWhatReset 0])
        kWhatReset = 1"
    using f r1
          postponed_reset_reposted_once
            [of state_audio_awaiting env0 "tl trace_reset_in_flush"
                "state_audio_awaiting\<lparr>mScanSourcesGeneration := 2, mFlushingAudio := NONE,
                                       mFlushingVideo := NONE\<rparr>"
                "[Source_dequeueAccessUnit True, Decoder_signalFlush True, Renderer_flush True,
                  Reply_post 21 (ReplyErr INFO_DISCONTINUITY), Renderer_signalTimeDiscontinuity,
                  Decoder_signalResume True, Decoder_signalResume False, Post kWhatReset 0]"]
    by (simp add: trace_reset_in_flush_def)
  have 4: "count_list
        (posted
           [Source_dequeueAccessUnit True, Decoder_signalFlush True, Renderer_flush True,
            Reply_post 21 (ReplyErr INFO_DISCONTINUITY)])
        kWhatReset = 0"
    using f r2
          postponed_reset_reposted_once
            [of state_audio_awaiting env0 "tl (take 3 trace_reset_in_flush)"
                "state_audio_awaiting\<lparr>mScanSourcesGeneration := 2,
                                       mFlushingAudio := FLUSHING_DECODER,
                                       mFlushingVideo := FLUSHED, mResetPostponed := True\<rparr>"
                "[Source_dequeueAccessUnit True, Decoder_signalFlush True, Renderer_flush True,
                  Reply_post 21 (ReplyErr INFO_DISCONTINUITY)]"]
    by (simp add: trace_reset_in_flush_def)
  have 1: "onMessageReceived env0 kWhatReset state_audio_awaiting
             = Inr (state_audio_awaiting\<lparr>mResetPostponed := True\<rparr>, [])"
    using postponed_reset_reposted_once [of state_audio_awaiting env0]
    by (simp add: state_audio_awaiting_def)
  have 2: "\<exists>s' es. finishFlushIfPossible env0
                (state_audio_awaiting\<lparr>mResetPostponed := True, mFlushingAudio := FLUSHED,
                                       mFlushingVideo := FLUSHED\<rparr>) = Inr (s', es)
        \<and> filter (\<lambda>m. m = kWhatReset) (posted es) = [kWhatReset]
        \<and> \<not> mResetPostponed s'
        \<and> mFlushingAudio s' = NONE \<and> mFlushingVideo s' = NONE"
    using postponed_reset_reposted_once
            [of "state_audio_awaiting\<lparr>mResetPostponed := True, mFlushingAudio := FLUSHED,
                                      mFlushingVideo := FLUSHED\<rparr>" env0]
    by (simp add: state_audio_awaiting_def flushed_def)
  from 1 2 r1 r2 3 4 show ?thesis by simp
qed

subsection \<open>How often playback completes\<close>
















lemma sameEOS_trans: "sameEOS s t \<Longrightarrow> sameEOS t u \<Longrightarrow> sameEOS s u"
  by (simp add: sameEOS_def)












subsection \<open>The pending scan\<close>

text \<open>
  C9 fails on the code. \<^verbatim>\<open>flushDecoder\<close> increments \<^verbatim>\<open>mScanSourcesGeneration\<close> and
  leaves \<^verbatim>\<open>mScanSourcesPending\<close> as it is. In an audio-only stream the scan is posted
  again every 100 ms, looking for a video track; when the audio track then changes
  format, the controller is left with \<^verbatim>\<open>mScanSourcesPending\<close> set, generation 1, and a
  queue whose only scan carries generation 0: no unconsumed scan of the current
  generation exists. (Every \<^verbatim>\<open>kWhatScanSources\<close> dispatched here was taken from the
  queue.)
\<close>

theorem scan_pending_without_current_scan:
  "map_sum id (mScanSourcesPending \<circ> fst) (dispatchAll trace_format_change (player0, []))
     = Inr True
   \<and> map_sum id (mScanSourcesGeneration \<circ> fst) (dispatchAll trace_format_change (player0, []))
     = Inr 1
   \<and> map_sum id snd (dispatchAll trace_format_change (player0, [])) = Inr [kWhatScanSources 0]
   \<and> count_list [kWhatScanSources 0] (kWhatScanSources 1) = 0"
  by (simp add: trace_format_change_def handler_defs scenario_defs Let_def)

subsection \<open>A busy decoder exists\<close>

lemma flushDecoder_inv:
  "decoderInv s \<Longrightarrow> flushDecoder audio needShutdown s = Inr (s', es) \<Longrightarrow> decoderInv s'"
  by (auto simp: flushDecoder_def decoderInv_def decoderBusy_def decoderOf_def Let_def
        split: if_splits)

lemma finishReset_inv:
  "decoderInv s \<Longrightarrow> finishReset env s = Inr (s', es) \<Longrightarrow> decoderInv s'"
  by (auto simp: finishReset_def decoderInv_def split: if_splits)

lemma finishFlushIfPossible_inv:
  "decoderInv s \<Longrightarrow> finishFlushIfPossible env s = Inr (s', es) \<Longrightarrow> decoderInv s'"
  by (auto simp: finishFlushIfPossible_def finishReset_def postScanSources_def andThen_def
        decoderInv_def decoderBusy_def Let_def
        split: if_splits)

lemma feedDecoderInputData_inv:
  "decoderInv s \<Longrightarrow> feedDecoderInputData env audio reply s = Inr (err, s', es) \<Longrightarrow> decoderInv s'"
  by (auto simp: feedDecoderInputData_def Let_def
        dest: flushDecoder_inv
        split: if_splits sum.splits prod.splits option.splits access_unit.splits)

lemma instantiateDecoder_inv:
  "decoderInv s \<Longrightarrow> instantiateDecoder env audio s = Inr (err, s', es) \<Longrightarrow> decoderInv s'"
  by (auto simp: instantiateDecoder_def decoderInv_def Let_def split: if_splits option.splits)

lemma onDecoderNotify_inv:
  assumes "decoderInv s" and "onDecoderNotify env msg audio codecRequest s = Inr (s', es)"
  shows "decoderInv s'"
proof (cases codecRequest)
  case (ACodec_kWhatFillThisBuffer reply)
  with assms show ?thesis
    by (auto simp: onDecoderNotify_def dest: feedDecoderInputData_inv
          split: sum.splits prod.splits if_splits)
next
  case ACodec_kWhatFlushCompleted
  have a: "decoderInv (s\<lparr>mFlushingAudio := FLUSHED\<rparr>)"
          "decoderInv (s\<lparr>mFlushingVideo := FLUSHED\<rparr>)"
    using assms(1) by (auto simp: decoderInv_def decoderBusy_def)
  have b: "mAudioDecoder s \<noteq> None \<Longrightarrow> decoderInv (s\<lparr>mFlushingAudio := SHUTTING_DOWN_DECODER\<rparr>)"
          "mVideoDecoder s \<noteq> None \<Longrightarrow> decoderInv (s\<lparr>mFlushingVideo := SHUTTING_DOWN_DECODER\<rparr>)"
    using assms(1) by (auto simp: decoderInv_def decoderBusy_def)
  from assms(2) ACodec_kWhatFlushCompleted show ?thesis
    using a b
    by (auto simp: onDecoderNotify_def andThen_def decoderOf_def Let_def
          dest: finishFlushIfPossible_inv
          split: sum.splits prod.splits if_splits option.splits bool.splits)
next
  case ACodec_kWhatShutdownCompleted
  have a: "mFlushingAudio s = SHUTTING_DOWN_DECODER \<Longrightarrow>
             decoderInv (s\<lparr>mAudioDecoder := None, mFlushingAudio := SHUT_DOWN\<rparr>)"
          "mFlushingVideo s = SHUTTING_DOWN_DECODER \<Longrightarrow>
             decoderInv (s\<lparr>mVideoDecoder := None, mFlushingVideo := SHUT_DOWN\<rparr>)"
    using assms(1) by (auto simp: decoderInv_def decoderBusy_def)
  from assms(2) ACodec_kWhatShutdownCompleted show ?thesis
    using a
    by (auto simp: onDecoderNotify_def Let_def dest: finishFlushIfPossible_inv split: if_splits)
qed (use assms in \<open>auto simp: onDecoderNotify_def renderBuffer_def split: if_splits\<close>)

lemma scanSources_inv:
  assumes "decoderInv s" and "scanSources env msg s = Inr (s', es)"
  shows "decoderInv s'"
proof -
  have a: "decoderInv (s\<lparr>mScanSourcesPending := False\<rparr>)"
    using assms(1) by (simp add: decoderInv_def)
  have b: "\<And>t. decoderInv t \<Longrightarrow> decoderInv (t\<lparr>mScanSourcesPending := True\<rparr>)"
    by (simp add: decoderInv_def)
  from assms(2) show ?thesis
    using a b
    by (auto simp: scanSources_def Let_def
          dest!: instantiateDecoder_inv [rotated]
          split: if_splits sum.splits prod.splits)
qed

lemma onMessageReceived_inv:
  assumes "decoderInv s" and "onMessageReceived env msg s = Inr (s', es)"
  shows "decoderInv s'"
proof (cases msg)
  case kWhatStart
  with assms show ?thesis
    by (auto simp: onMessageReceived_def postScanSources_def decoderInv_def Let_def
          split: if_splits prod.splits)
next
  case (kWhatScanSources generation)
  with assms show ?thesis
    by (auto simp: onMessageReceived_def dest: scanSources_inv split: if_splits)
next
  case (kWhatVideoNotify r)
  with assms show ?thesis
    by (auto simp: onMessageReceived_def dest: onDecoderNotify_inv)
next
  case (kWhatAudioNotify r)
  with assms show ?thesis
    by (auto simp: onMessageReceived_def dest: onDecoderNotify_inv)
next
  case (kWhatRendererNotify n)
  with assms show ?thesis
    by (cases n) (auto simp: onMessageReceived_def decoderInv_def Let_def split: if_splits)
next
  case kWhatReset
  have p: "decoderInv (s\<lparr>mResetPostponed := True\<rparr>)"
    using assms(1) by (simp add: decoderInv_def)
  have q: "\<And>t. decoderInv t \<Longrightarrow> decoderInv (t\<lparr>mResetInProgress := True\<rparr>)"
    by (simp add: decoderInv_def)
  from assms kWhatReset show ?thesis
    using p q
    by (auto simp: onMessageReceived_def andThen_def
          intro!: q intro: finishReset_inv flushDecoder_inv
          split: if_splits sum.splits prod.splits)
qed (use assms in \<open>auto simp: onMessageReceived_def decoderInv_def split: if_splits\<close>)

lemma reachable_inv: "reachable s \<Longrightarrow> decoderInv s"
proof (induction rule: reachable.induct)
  case reachable_new
  show ?case by (simp add: decoderInv_def decoderBusy_def NuPlayer_new_def)
next
  case (reachable_setListener s listener)
  then show ?case by (simp add: decoderInv_def setListener_def)
next
  case (reachable_message s env msg s' es)
  then show ?case by (blast intro: onMessageReceived_inv)
qed

lemma finishReset_no_null_decoder: "finishReset env s \<noteq> Inl NullDecoder"
  by (simp add: finishReset_def)

lemma finishFlushIfPossible_no_null_decoder: "finishFlushIfPossible env s \<noteq> Inl NullDecoder"
  by (simp add: finishFlushIfPossible_def finishReset_def postScanSources_def andThen_def Let_def)

lemma flushDecoder_null_decoder:
  "flushDecoder audio needShutdown s = Inl NullDecoder \<longleftrightarrow> decoderOf audio s = None"
  by (simp add: flushDecoder_def decoderOf_def Let_def)

lemma feedDecoderInputData_null_decoder:
  "feedDecoderInputData env audio reply s = Inl NullDecoder \<Longrightarrow> decoderOf audio s = None"
  by (auto simp: feedDecoderInputData_def Let_def
        dest: flushDecoder_null_decoder [THEN iffD1]
        split: if_splits sum.splits prod.splits option.splits access_unit.splits)

lemma onDecoderNotify_null_decoder:
  assumes "onDecoderNotify env msg audio codecRequest s = Inl NullDecoder"
  shows "decoderOf audio s = None"
proof (cases codecRequest)
  case (ACodec_kWhatFillThisBuffer reply)
  with assms show ?thesis
    by (auto simp: onDecoderNotify_def dest: feedDecoderInputData_null_decoder
          split: sum.splits prod.splits if_splits)
next
  case ACodec_kWhatFlushCompleted
  with assms show ?thesis
    by (auto simp: onDecoderNotify_def andThen_def decoderOf_def Let_def
          finishFlushIfPossible_no_null_decoder
          split: sum.splits prod.splits if_splits option.splits bool.splits)
next
  case ACodec_kWhatShutdownCompleted
  with assms show ?thesis
    by (auto simp: onDecoderNotify_def Let_def finishFlushIfPossible_no_null_decoder
          split: if_splits)
qed (use assms in \<open>auto simp: onDecoderNotify_def renderBuffer_def split: if_splits\<close>)

lemma flush_completed_null_decoder:
  assumes "onDecoderNotify env msg audio ACodec_kWhatFlushCompleted s = Inl NullDecoder"
  shows "decoderBusy (if audio then mFlushingAudio s else mFlushingVideo s)
         \<and> decoderOf audio s = None"
  using assms
  by (cases "if audio then mFlushingAudio s else mFlushingVideo s")
     (auto simp: onDecoderNotify_def andThen_def decoderOf_def decoderBusy_def Let_def
        finishFlushIfPossible_no_null_decoder
        split: if_splits sum.splits prod.splits)

lemma instantiateDecoder_no_null_decoder:
  "instantiateDecoder env audio s \<noteq> Inl NullDecoder"
  by (simp add: instantiateDecoder_def Let_def split: option.splits)

lemma scanSources_no_null_decoder: "scanSources env msg s \<noteq> Inl NullDecoder"
  using instantiateDecoder_no_null_decoder
  by (auto simp: scanSources_def Let_def split: sum.splits prod.splits if_splits)

lemma reset_no_null_decoder: "onMessageReceived env kWhatReset s \<noteq> Inl NullDecoder"
proof
  assume a: "onMessageReceived env kWhatReset s = Inl NullDecoder"
  have 1: "mAudioDecoder s \<noteq> None \<Longrightarrow> flushDecoder True True s \<noteq> Inl NullDecoder"
    by (simp add: flushDecoder_null_decoder decoderOf_def)
  have 2: "\<And>t. mVideoDecoder t \<noteq> None \<Longrightarrow> flushDecoder False True t \<noteq> Inl NullDecoder"
    by (simp add: flushDecoder_null_decoder decoderOf_def)
  from a 1 2 show False
    by (auto simp: onMessageReceived_def andThen_def finishReset_no_null_decoder
          split: if_splits sum.splits prod.splits)
qed

lemma onMessageReceived_null_decoder:
  assumes "onMessageReceived env msg s = Inl NullDecoder"
  shows "\<exists>audio. notifier msg = Some audio \<and> decoderOf audio s = None"
proof (cases msg)
  case (kWhatScanSources generation)
  with assms scanSources_no_null_decoder show ?thesis
    by (auto simp: onMessageReceived_def split: if_splits)
next
  case (kWhatVideoNotify r)
  with assms show ?thesis
    by (auto simp: onMessageReceived_def dest: onDecoderNotify_null_decoder)
next
  case (kWhatAudioNotify r)
  with assms show ?thesis
    by (auto simp: onMessageReceived_def dest: onDecoderNotify_null_decoder)
next
  case (kWhatRendererNotify n)
  with assms show ?thesis
    by (cases n) (auto simp: onMessageReceived_def Let_def split: if_splits)
next
  case kWhatReset
  with assms reset_no_null_decoder show ?thesis by blast
qed (use assms in \<open>auto simp: onMessageReceived_def postScanSources_def Let_def split: if_splits prod.splits\<close>)

text \<open>
  C10: in every state the controller can reach, a track in \<open>FLUSHING_DECODER\<close>,
  \<open>FLUSHING_DECODER_SHUTDOWN\<close> or \<open>SHUTTING_DOWN_DECODER\<close> has a decoder. Hence in such a
  state the handler of \<^verbatim>\<open>kWhatFlushCompleted\<close>, whose \<^verbatim>\<open>CHECK\<close> admits the first two
  statuses only, never calls \<^verbatim>\<open>initiateShutdown\<close> through a null decoder, and
  \<^verbatim>\<open>flushDecoder\<close> for a track in one of the three never calls \<^verbatim>\<open>signalFlush\<close> through
  one. For the other statuses \<^verbatim>\<open>flushDecoder\<close> is reached either from \<^verbatim>\<open>kWhatReset\<close>,
  which tests the decoder first, or from a decoder's \<^verbatim>\<open>kWhatFillThisBuffer\<close>: no
  handler calls through a null decoder as long as a decoder's notification is handled
  while that decoder exists.
\<close>

theorem busy_decoder_present:
  assumes "reachable s"
  shows "(decoderBusy (mFlushingAudio s) \<longrightarrow> mAudioDecoder s \<noteq> None)
       \<and> (decoderBusy (mFlushingVideo s) \<longrightarrow> mVideoDecoder s \<noteq> None)
       \<and> onMessageReceived env (kWhatAudioNotify ACodec_kWhatFlushCompleted) s \<noteq> Inl NullDecoder
       \<and> onMessageReceived env (kWhatVideoNotify ACodec_kWhatFlushCompleted) s \<noteq> Inl NullDecoder
       \<and> (decoderBusy (if audio then mFlushingAudio s else mFlushingVideo s) \<longrightarrow>
            flushDecoder audio needShutdown s \<noteq> Inl NullDecoder)
       \<and> ((\<forall>a. notifier msg = Some a \<longrightarrow> decoderOf a s \<noteq> None) \<longrightarrow>
            onMessageReceived env msg s \<noteq> Inl NullDecoder)"
proof -
  from assms have inv: "decoderInv s" by (rule reachable_inv)
  have 1: "decoderBusy (mFlushingAudio s) \<longrightarrow> mAudioDecoder s \<noteq> None"
   and 2: "decoderBusy (mFlushingVideo s) \<longrightarrow> mVideoDecoder s \<noteq> None"
    using inv by (simp_all add: decoderInv_def)
  have 3: "onMessageReceived env (kWhatAudioNotify ACodec_kWhatFlushCompleted) s \<noteq> Inl NullDecoder"
  proof
    assume "onMessageReceived env (kWhatAudioNotify ACodec_kWhatFlushCompleted) s = Inl NullDecoder"
    then have "onDecoderNotify env (kWhatAudioNotify ACodec_kWhatFlushCompleted) True
                 ACodec_kWhatFlushCompleted s = Inl NullDecoder"
      by (simp add: onMessageReceived_def)
    from flush_completed_null_decoder [OF this] 1 show False
      by (simp add: decoderOf_def)
  qed
  have 4: "onMessageReceived env (kWhatVideoNotify ACodec_kWhatFlushCompleted) s \<noteq> Inl NullDecoder"
  proof
    assume "onMessageReceived env (kWhatVideoNotify ACodec_kWhatFlushCompleted) s = Inl NullDecoder"
    then have "onDecoderNotify env (kWhatVideoNotify ACodec_kWhatFlushCompleted) False
                 ACodec_kWhatFlushCompleted s = Inl NullDecoder"
      by (simp add: onMessageReceived_def)
    from flush_completed_null_decoder [OF this] 2 show False
      by (simp add: decoderOf_def)
  qed
  have 5: "decoderBusy (if audio then mFlushingAudio s else mFlushingVideo s) \<longrightarrow>
             flushDecoder audio needShutdown s \<noteq> Inl NullDecoder"
    using 1 2 by (cases audio) (simp_all add: flushDecoder_null_decoder decoderOf_def)
  have 6: "(\<forall>a. notifier msg = Some a \<longrightarrow> decoderOf a s \<noteq> None) \<longrightarrow>
             onMessageReceived env msg s \<noteq> Inl NullDecoder"
    using onMessageReceived_null_decoder [of env msg s] by blast
  from 1 2 3 4 5 6 show ?thesis by blast
qed

theorem busy_decoder_present_witness:
  "reachable state_audio_awaiting
   \<and> decoderBusy (mFlushingVideo state_audio_awaiting)
   \<and> mVideoDecoder state_audio_awaiting \<noteq> None
   \<and> onMessageReceived env0 (kWhatVideoNotify ACodec_kWhatFlushCompleted) state_audio_awaiting
       \<noteq> Inl NullDecoder
   \<and> flushDecoder False True state_audio_awaiting \<noteq> Inl NullDecoder
   \<and> onMessageReceived
        (withUnit INFO_DISCONTINUITY (AccessUnit 6 (Some DISCONTINUITY_FORMATCHANGE)))
        (kWhatAudioNotify (ACodec_kWhatFillThisBuffer 21)) state_audio_awaiting
       \<noteq> Inl NullDecoder"
proof -
  have b: "decoderBusy (mFlushingVideo state_audio_awaiting)"
    by (simp add: decoderBusy_def state_audio_awaiting_def)
  have n: "\<forall>a. notifier (kWhatAudioNotify (ACodec_kWhatFillThisBuffer 21)) = Some a
               \<longrightarrow> decoderOf a state_audio_awaiting \<noteq> None"
    by (simp add: decoderOf_def state_audio_awaiting_def)
  from b n state_audio_awaiting_reachable
       busy_decoder_present
         [OF state_audio_awaiting_reachable,
          of env0 False True "kWhatVideoNotify ACodec_kWhatFlushCompleted"]
       busy_decoder_present
         [OF state_audio_awaiting_reachable,
          of "withUnit INFO_DISCONTINUITY (AccessUnit 6 (Some DISCONTINUITY_FORMATCHANGE))"
             False True "kWhatAudioNotify (ACodec_kWhatFillThisBuffer 21)"]
  show ?thesis by simp
qed

end
